theory Spec2Isabelle
  imports Main
begin

section \<open>The Jitsu Console client of terraform-provider-jitsu\<close>

text \<open>
  A shallow embedding of \<^verbatim>\<open>internal/client\<close> (the \<^verbatim>\<open>Client\<close> type with its session
  handling, request executor, soft-delete purge and CRUD facade) and of the workspace
  resource's \<^verbatim>\<open>Create\<close> handler.

  The Go code talks to three things outside the repository: the HTTP server, the
  PostgreSQL database and the Go standard library. The first two are modelled as an
  arbitrary state machine over a world \<open>'w\<close>; the library functions whose results the
  code only passes on (\<^verbatim>\<open>url.PathEscape\<close>, \<^verbatim>\<open>json.Marshal\<close>, the JSON syntax check of
  \<^verbatim>\<open>json.Unmarshal\<close>, ...) are fields of an environment record. Every theorem holds for
  every environment. Each outgoing action (HTTP exchange, SQL statement, log line) is
  appended to a trace, so that "how often" and "in which order" can be stated.
\<close>

subsection \<open>Errors\<close>

text \<open>
  A Go \<^verbatim>\<open>error\<close> built by \<^verbatim>\<open>fmt.Errorf(format, args...)\<close> is kept as the format string
  with its arguments: \<open>S\<close> for \<^verbatim>\<open>%s\<close>, \<open>D\<close> for \<^verbatim>\<open>%d\<close>, \<open>Q\<close> for \<^verbatim>\<open>%q\<close>, \<open>W\<close> for a
  wrapped error (\<^verbatim>\<open>%w\<close>). \<open>External\<close> is an error value produced outside the
  repository (net/http, database/sql, encoding/json).
\<close>

datatype error = Errorf string "fmtarg list" | External string
and fmtarg = S string | D int | Q string | W error

subsection \<open>JSON values\<close>

text \<open>
  The values \<^verbatim>\<open>encoding/json\<close> decodes into \<^verbatim>\<open>interface{}\<close>. An object keeps its members
  in document order; a Go map holds the last value of a repeated key, which is what
  \<open>obj_get\<close> looks up. A number keeps its literal.
\<close>

datatype json =
    JNull
  | JBool bool
  | JNumber string
  | JString string
  | JArray "json list"
  | JObject "(string \<times> json) list"

type_synonym jmap = "(string \<times> json) list"

definition obj_get :: "jmap \<Rightarrow> string \<Rightarrow> json option" where
  "obj_get kvs k = map_of (rev kvs) k"

text \<open>\<^verbatim>\<open>v, ok := m[k].(string)\<close> and \<^verbatim>\<open>v, ok := m[k].(bool)\<close> on a possibly nil map.\<close>

definition get_string :: "jmap option \<Rightarrow> string \<Rightarrow> string option" where
  "get_string m k =
     (case m of None \<Rightarrow> None
      | Some kvs \<Rightarrow> (case obj_get kvs k of Some (JString s) \<Rightarrow> Some s | _ \<Rightarrow> None))"

definition get_bool :: "jmap option \<Rightarrow> string \<Rightarrow> bool option" where
  "get_bool m k =
     (case m of None \<Rightarrow> None
      | Some kvs \<Rightarrow> (case obj_get kvs k of Some (JBool b) \<Rightarrow> Some b | _ \<Rightarrow> None))"

subsection \<open>HTTP and SQL as seen by the client\<close>

record request =
  req_method :: string
  req_url :: string
  req_headers :: "(string \<times> string) list"
  req_body :: "string option"
  req_follow_redirects :: bool

text \<open>
  What \<^verbatim>\<open>httpClient.Do\<close> followed by \<^verbatim>\<open>io.ReadAll(resp.Body)\<close> can give: \<^verbatim>\<open>Do\<close> fails,
  the body cannot be read (the status is known), or status and body arrive.
\<close>

datatype http_result = DoError error | ReadError int error | Response int string

text \<open>
  The two statement shapes the client sends, as syntax trees. \<open>DeleteFrom t w a\<close> is
  \<^verbatim>\<open>DELETE FROM newjitsu."t" WHERE w\<close> with \<^verbatim>\<open>$1\<close> bound to \<open>a\<close>;
  \<open>ColEqArg col\<close> is \<^verbatim>\<open>"col" = $1\<close> and \<open>DeletedIsTrue\<close> is \<^verbatim>\<open>deleted = true\<close>.
\<close>

datatype cond = DeletedIsTrue | ColEqArg string | And cond cond | Or cond cond

datatype stmt = DeleteFrom string cond string

datatype level = Debug | Warn

datatype event =
    HttpDo request
  | SqlExec stmt
  | Log level string "(string \<times> fmtarg) list"

subsection \<open>The environment\<close>

record 'w env =
  newRequestErr :: "string \<Rightarrow> string \<Rightarrow> error option"
  httpDo :: "request \<Rightarrow> 'w \<Rightarrow> http_result \<times> 'w"
  jsonMarshal :: "jmap \<Rightarrow> error + string"
  jsonParse :: "string \<Rightarrow> error + json"
  numberFits :: "string \<Rightarrow> bool"
  fieldNameMatches :: "string \<Rightarrow> string \<Rightarrow> bool"
  formEncode :: "(string \<times> string) list \<Rightarrow> string"
  pathEscape :: "string \<Rightarrow> string"
  queryEscape :: "string \<Rightarrow> string"
  sqlOpen :: "string \<Rightarrow> error option"
  sqlExec :: "stmt \<Rightarrow> 'w \<Rightarrow> error option \<times> 'w"

text \<open>
  \<^item> \<open>newRequestErr m u\<close>: the error of \<^verbatim>\<open>http.NewRequestWithContext(ctx, m, u, body)\<close>, if any;
  \<^item> \<open>httpDo\<close>: one exchange with the server (cookies live in the world);
  \<^item> \<open>jsonParse\<close>: the syntax check and value structure of \<^verbatim>\<open>json.Unmarshal\<close>;
  \<^item> \<open>numberFits n\<close>: whether the number literal \<open>n\<close> converts to a \<^verbatim>\<open>float64\<close>
    (\<^verbatim>\<open>strconv.ParseFloat(n, 64)\<close> without a range error);
  \<^item> \<open>fieldNameMatches f k\<close>: whether object key \<open>k\<close> selects the struct field tagged \<open>f\<close>
    (exact or case-insensitive match, as \<^verbatim>\<open>encoding/json\<close> decides);
  \<^item> \<open>sqlOpen\<close>: the error of \<^verbatim>\<open>sql.Open("postgres", url)\<close>, if any;
  \<^item> \<open>sqlExec\<close>: the error of \<^verbatim>\<open>db.ExecContext\<close>, if any, and the world afterwards.
\<close>

subsection \<open>Decoding into Go types\<close>

definition unmarshalTypeError :: error where
  "unmarshalTypeError = External ''json: cannot unmarshal value into Go value''"

text \<open>
  A value decodes into \<^verbatim>\<open>interface{}\<close> without an error exactly when every number in it,
  at any depth, converts to a \<^verbatim>\<open>float64\<close>; a number that does not is an
  \<^verbatim>\<open>UnmarshalTypeError\<close>, which \<^verbatim>\<open>json.Unmarshal\<close> returns after it has read the rest.
  Every member of an object is decoded, a member whose key comes again later included.
\<close>

fun fits :: "'w env \<Rightarrow> json \<Rightarrow> bool"
  and fitsElems :: "'w env \<Rightarrow> json list \<Rightarrow> bool"
  and fitsMembers :: "'w env \<Rightarrow> (string \<times> json) list \<Rightarrow> bool" where
  "fits env JNull = True"
| "fits env (JBool b) = True"
| "fits env (JNumber n) = numberFits env n"
| "fits env (JString s) = True"
| "fits env (JArray vs) = fitsElems env vs"
| "fits env (JObject kvs) = fitsMembers env kvs"
| "fitsElems env [] = True"
| "fitsElems env (v # vs) = (fits env v \<and> fitsElems env vs)"
| "fitsMembers env [] = True"
| "fitsMembers env ((k, v) # kvs) = (fits env v \<and> fitsMembers env kvs)"

text \<open>
  \<^verbatim>\<open>json.Unmarshal(body, &m)\<close> for \<^verbatim>\<open>m map[string]interface{}\<close>: JSON \<^verbatim>\<open>null\<close> leaves the map
  nil without an error, an object whose members all decode fills it, anything else is a
  type error.
\<close>

definition as_map :: "'w env \<Rightarrow> json \<Rightarrow> error + jmap option" where
  "as_map env v =
     (case v of
        JNull \<Rightarrow> Inr None
      | JObject kvs \<Rightarrow> if fitsMembers env kvs then Inr (Some kvs) else Inl unmarshalTypeError
      | _ \<Rightarrow> Inl unmarshalTypeError)"

definition unmarshal_map :: "'w env \<Rightarrow> string \<Rightarrow> error + jmap option" where
  "unmarshal_map env body =
     (case jsonParse env body of Inl e \<Rightarrow> Inl e | Inr v \<Rightarrow> as_map env v)"





text \<open>
  \<^verbatim>\<open>json.Unmarshal(body, &csrf)\<close> for \<^verbatim>\<open>csrf struct { Token string `json:"csrfToken"` }\<close>:
  every member whose key selects the field sets it when its value is a string, leaves it
  when the value is \<^verbatim>\<open>null\<close>, and is a type error otherwise; other members are skipped.
\<close>

fun csrf_members :: "'w env \<Rightarrow> jmap \<Rightarrow> string \<Rightarrow> error + string" where
  "csrf_members env [] tok = Inr tok"
| "csrf_members env ((k, v) # kvs) tok =
     (if fieldNameMatches env ''csrfToken'' k then
        (case v of
           JString s \<Rightarrow> csrf_members env kvs s
         | JNull \<Rightarrow> csrf_members env kvs tok
         | _ \<Rightarrow> Inl unmarshalTypeError)
      else csrf_members env kvs tok)"

definition unmarshal_csrf :: "'w env \<Rightarrow> string \<Rightarrow> error + string" where
  "unmarshal_csrf env body =
     (case jsonParse env body of
        Inl e \<Rightarrow> Inl e
      | Inr JNull \<Rightarrow> Inr []
      | Inr (JObject kvs) \<Rightarrow> csrf_members env kvs []
      | Inr _ \<Rightarrow> Inl unmarshalTypeError)"

subsection \<open>The client\<close>

text \<open>
  The fields of the Go struct \<^verbatim>\<open>Client\<close>, followed by the world it acts on and the trace
  of what it did. \<open>dbOnce\<close> says whether \<^verbatim>\<open>dbOnce.Do\<close> has run; the pool \<^verbatim>\<open>c.db\<close> is non-nil
  exactly when it has run and \<open>dbErr\<close> is \<open>None\<close>. The mutex \<^verbatim>\<open>authMu\<close> has no counterpart:
  the model runs one operation at a time.
\<close>

record 'w client =
  consoleURL :: string
  username :: string
  password :: string
  databaseURL :: string
  userAgent :: string
  authenticated :: bool
  dbOnce :: bool
  dbErr :: "error option"
  world :: 'w
  trace :: "event list"

definition trimRightSlash :: "string \<Rightarrow> string" where
  "trimRightSlash s = rev (dropWhile (\<lambda>ch. ch = CHR ''/'') (rev s))"

definition New :: "string \<Rightarrow> string \<Rightarrow> string \<Rightarrow> string \<Rightarrow> string \<Rightarrow> 'w \<Rightarrow> 'w client" where
  "New console user pass dburl agent w =
     \<lparr> consoleURL = trimRightSlash console, username = user, password = pass,
       databaseURL = dburl, userAgent = agent, authenticated = False,
       dbOnce = False, dbErr = None, world = w, trace = [] \<rparr>"

definition emit :: "event \<Rightarrow> 'w client \<Rightarrow> 'w client" where
  "emit e c = c\<lparr>trace := trace c @ [e]\<rparr>"

subsection \<open>Talking to the world\<close>

definition do_http :: "'w env \<Rightarrow> request \<Rightarrow> 'w client \<Rightarrow> http_result \<times> 'w client" where
  "do_http env req c =
     (case httpDo env req (world c) of
        (r, w') \<Rightarrow> (r, emit (HttpDo req) (c\<lparr>world := w'\<rparr>)))"

definition exec_sql :: "'w env \<Rightarrow> stmt \<Rightarrow> 'w client \<Rightarrow> error option \<times> 'w client" where
  "exec_sql env st c =
     (case sqlExec env st (world c) of
        (r, w') \<Rightarrow> (r, emit (SqlExec st) (c\<lparr>world := w'\<rparr>)))"

subsection \<open>The soft-delete purge\<close>

text \<open>
  \<^verbatim>\<open>getDB\<close>: the pool is opened at most once (\<^verbatim>\<open>sync.Once\<close>); its handle or its error is
  kept. \<open>Inr ()\<close> stands for the handle \<^verbatim>\<open>c.db\<close>. The pool limits set after opening have
  no effect on what is sent and are left out.
\<close>

definition databaseURLMissing :: error where
  "databaseURLMissing =
     Errorf (''database_url not configured in provider; '' @
             ''Jitsu uses soft-delete, so re-creating objects with the same ID requires database_url to hard-delete stale rows'') []"

definition getDB :: "'w env \<Rightarrow> 'w client \<Rightarrow> (error + unit) \<times> 'w client" where
  "getDB env c =
     (if databaseURL c = [] then (Inl databaseURLMissing, c)
      else
        let c1 = (if dbOnce c then c
                  else c\<lparr>dbOnce := True, dbErr := sqlOpen env (databaseURL c)\<rparr>)
        in (case dbErr c1 of Some e \<Rightarrow> (Inl e, c1) | None \<Rightarrow> (Inr (), c1)))"

definition deleteLinksStmt :: "string \<Rightarrow> stmt" where
  "deleteLinksStmt ident =
     DeleteFrom ''ConfigurationObjectLink''
       (And DeletedIsTrue (Or (ColEqArg ''fromId'') (ColEqArg ''toId''))) ident"

definition deleteRowStmt :: "string \<Rightarrow> string \<Rightarrow> stmt" where
  "deleteRowStmt table ident = DeleteFrom table (And (ColEqArg ''id'') DeletedIsTrue) ident"

definition hardDeleteSoftDeleted ::
  "'w env \<Rightarrow> 'w client \<Rightarrow> string \<Rightarrow> string \<Rightarrow> (error + unit) \<times> 'w client" where
  "hardDeleteSoftDeleted env c ident table =
     (case getDB env c of
        (Inl err, c1) \<Rightarrow> (Inl (Errorf ''cannot purge soft-deleted %q: %w'' [Q ident, W err]), c1)
      | (Inr _, c1) \<Rightarrow>
          let c2 = emit (Log Warn ''hard-deleting soft-deleted row for re-creation''
                           [(''id'', S ident), (''table'', S table)]) c1
          in (case (if table = ''ConfigurationObject''
                    then exec_sql env (deleteLinksStmt ident) c2
                    else (None, c2)) of
                (Some err, c3) \<Rightarrow>
                  (Inl (Errorf ''hard-deleting referencing links for %q: %w'' [Q ident, W err]), c3)
              | (None, c3) \<Rightarrow>
                  (case exec_sql env (deleteRowStmt table ident) c3 of
                     (Some err, c4) \<Rightarrow>
                       (Inl (Errorf ''hard-deleting soft-deleted %s %q: %w''
                               [S table, Q ident, W err]), c4)
                   | (None, c4) \<Rightarrow> (Inr (), c4))))"

subsection \<open>Endpoints\<close>

definition configURL :: "'w env \<Rightarrow> 'w client \<Rightarrow> string \<Rightarrow> string \<Rightarrow> string" where
  "configURL env c workspaceID resourceType =
     consoleURL c @ ''/api/'' @ pathEscape env workspaceID @ ''/config/'' @ pathEscape env resourceType"

definition configItemURL :: "'w env \<Rightarrow> 'w client \<Rightarrow> string \<Rightarrow> string \<Rightarrow> string \<Rightarrow> string" where
  "configItemURL env c workspaceID resourceType ident =
     consoleURL c @ ''/api/'' @ pathEscape env workspaceID @ ''/config/''
       @ pathEscape env resourceType @ ''/'' @ pathEscape env ident"

definition workspaceURL :: "'w client \<Rightarrow> string" where
  "workspaceURL c = consoleURL c @ ''/api/workspace''"

definition workspaceItemURL :: "'w env \<Rightarrow> 'w client \<Rightarrow> string \<Rightarrow> string" where
  "workspaceItemURL env c idOrSlug = consoleURL c @ ''/api/workspace/'' @ pathEscape env idOrSlug"

subsection \<open>Session\<close>

definition rawRequest ::
  "'w env \<Rightarrow> 'w client \<Rightarrow> string \<Rightarrow> string \<Rightarrow> string option \<Rightarrow> (string \<times> string) list
     \<Rightarrow> (error + string \<times> int) \<times> 'w client" where
  "rawRequest env c method requestURL reqBody headers =
     (case newRequestErr env method requestURL of
        Some err \<Rightarrow> (Inl (Errorf ''creating request: %w'' [W err]), c)
      | None \<Rightarrow>
          let req = \<lparr> req_method = method, req_url = requestURL,
                      req_headers = (if userAgent c \<noteq> [] then [(''User-Agent'', userAgent c)] else [])
                                    @ headers,
                      req_body = reqBody, req_follow_redirects = True \<rparr>
          in (case do_http env req c of
                (DoError err, c1) \<Rightarrow> (Inl (Errorf ''executing request: %w'' [W err]), c1)
              | (ReadError st err, c1) \<Rightarrow> (Inl (Errorf ''reading response body: %w'' [W err]), c1)
              | (Response st body, c1) \<Rightarrow> (Inr (body, st), c1)))"

definition csrfURL :: "'w client \<Rightarrow> string" where
  "csrfURL c = consoleURL c @ ''/api/auth/csrf''"

definition loginURL :: "'w client \<Rightarrow> string" where
  "loginURL c = consoleURL c @ ''/api/auth/callback/credentials''"

definition loginRequest :: "'w env \<Rightarrow> 'w client \<Rightarrow> string \<Rightarrow> request" where
  "loginRequest env c token =
     \<lparr> req_method = ''POST'', req_url = loginURL c,
       req_headers = [(''Content-Type'', ''application/x-www-form-urlencoded'')],
       req_body = Some (formEncode env [(''username'', username c), (''password'', password c),
                                         (''csrfToken'', token)]),
       req_follow_redirects = False \<rparr>"

text \<open>The second half of \<^verbatim>\<open>authenticate\<close>: the credential exchange with a token in hand.\<close>

definition login :: "'w env \<Rightarrow> 'w client \<Rightarrow> string \<Rightarrow> (error + unit) \<times> 'w client" where
  "login env c token =
     (case newRequestErr env ''POST'' (loginURL c) of
        Some err \<Rightarrow> (Inl (Errorf ''creating login request: %w'' [W err]), c)
      | None \<Rightarrow>
          (case do_http env (loginRequest env c token) c of
             (DoError err, c1) \<Rightarrow> (Inl (Errorf ''executing login request: %w'' [W err]), c1)
           | (ReadError st err, c1) \<Rightarrow> (Inl (Errorf ''reading login response: %w'' [W err]), c1)
           | (Response st loginRespBody, c1) \<Rightarrow>
               if st < 200 \<or> st \<ge> 400 then
                 (Inl (Errorf ''POST %s returned %d: %s'' [S (loginURL c), D st, S loginRespBody]), c1)
               else (Inr (), c1\<lparr>authenticated := True\<rparr>)))"

definition authenticate :: "'w env \<Rightarrow> 'w client \<Rightarrow> (error + unit) \<times> 'w client" where
  "authenticate env c =
     (if username c = [] \<or> password c = [] then
        (Inl (Errorf ''no authentication configured: set username/password'' []), c)
      else if authenticated c then (Inr (), c)
      else
        (case rawRequest env c ''GET'' (csrfURL c) None [] of
           (Inl err, c1) \<Rightarrow> (Inl (Errorf ''requesting CSRF token: %w'' [W err]), c1)
         | (Inr (csrfRespBody, status), c1) \<Rightarrow>
             if status < 200 \<or> status \<ge> 300 then
               (Inl (Errorf ''GET %s returned %d: %s'' [S (csrfURL c), D status, S csrfRespBody]), c1)
             else
               (case unmarshal_csrf env csrfRespBody of
                  Inl err \<Rightarrow> (Inl (Errorf ''parsing CSRF response: %w'' [W err]), c1)
                | Inr token \<Rightarrow>
                    if token = [] then (Inl (Errorf ''empty CSRF token in response'' []), c1)
                    else login env c1 token)))"

definition markUnauthenticated :: "'w client \<Rightarrow> 'w client" where
  "markUnauthenticated c = c\<lparr>authenticated := False\<rparr>"

definition isAuthFailureStatus :: "int \<Rightarrow> bool" where
  "isAuthFailureStatus status = (status = 401 \<or> status = 403)"

subsection \<open>The request executor\<close>

definition apiRequest :: "'w client \<Rightarrow> string \<Rightarrow> string \<Rightarrow> string option \<Rightarrow> request" where
  "apiRequest c method requestURL reqBody =
     \<lparr> req_method = method, req_url = requestURL,
       req_headers = (if userAgent c \<noteq> [] then [(''User-Agent'', userAgent c)] else [])
                     @ (if reqBody \<noteq> None then [(''Content-Type'', ''application/json'')] else []),
       req_body = reqBody, req_follow_redirects = True \<rparr>"

definition logRequest :: "string \<Rightarrow> string \<Rightarrow> event" where
  "logRequest method requestURL = Log Debug ''API request'' [(''method'', S method), (''url'', S requestURL)]"

definition logResponse :: "string \<Rightarrow> string \<Rightarrow> int \<Rightarrow> event" where
  "logResponse method requestURL status =
     Log Debug ''API response'' [(''method'', S method), (''url'', S requestURL), (''status_code'', D status)]"

definition logAuthRetry :: "string \<Rightarrow> string \<Rightarrow> int \<Rightarrow> event" where
  "logAuthRetry method requestURL status =
     Log Warn ''API request returned auth failure; re-authenticating and retrying once''
       [(''method'', S method), (''url'', S requestURL), (''status_code'', D status)]"

text \<open>
  The closure \<^verbatim>\<open>send\<close> of \<^verbatim>\<open>doRequest\<close>; \<open>body\<close> is \<open>None\<close> for a nil body. Like \<^verbatim>\<open>rawRequest\<close>
  it returns the status next to a read error; no caller looks at a status that comes with
  an error, so the result is the error alone.
\<close>

definition send ::
  "'w env \<Rightarrow> 'w client \<Rightarrow> string \<Rightarrow> string \<Rightarrow> jmap option \<Rightarrow> (error + string \<times> int) \<times> 'w client" where
  "send env c method requestURL body =
     (case (case body of None \<Rightarrow> Inr None
            | Some payload \<Rightarrow> (case jsonMarshal env payload of Inl e \<Rightarrow> Inl e | Inr bytes \<Rightarrow> Inr (Some bytes))) of
        Inl err \<Rightarrow> (Inl (Errorf ''marshaling request body: %w'' [W err]), c)
      | Inr reqBody \<Rightarrow>
          (case newRequestErr env method requestURL of
             Some err \<Rightarrow> (Inl (Errorf ''creating request: %w'' [W err]), c)
           | None \<Rightarrow>
               (case do_http env (apiRequest c method requestURL reqBody)
                       (emit (logRequest method requestURL) c) of
                  (DoError err, c1) \<Rightarrow> (Inl (Errorf ''executing request: %w'' [W err]), c1)
                | (ReadError st err, c1) \<Rightarrow> (Inl (Errorf ''reading response body: %w'' [W err]), c1)
                | (Response st respBody, c1) \<Rightarrow>
                    (Inr (respBody, st), emit (logResponse method requestURL st) c1))))"

definition doRequest ::
  "'w env \<Rightarrow> 'w client \<Rightarrow> string \<Rightarrow> string \<Rightarrow> jmap option \<Rightarrow> (error + string \<times> int) \<times> 'w client" where
  "doRequest env c method requestURL body =
     (case authenticate env c of
        (Inl err, c1) \<Rightarrow> (Inl err, c1)
      | (Inr _, c1) \<Rightarrow>
          (case send env c1 method requestURL body of
             (Inl err, c2) \<Rightarrow> (Inl err, c2)
           | (Inr (respBody, status), c2) \<Rightarrow>
               if isAuthFailureStatus status then
                 (case authenticate env
                         (markUnauthenticated (emit (logAuthRetry method requestURL status) c2)) of
                    (Inl err, c3) \<Rightarrow>
                      (Inl (Errorf ''re-authenticating after %d response: %w'' [D status, W err]), c3)
                  | (Inr _, c3) \<Rightarrow>
                      (case send env c3 method requestURL body of
                         (Inl err, c4) \<Rightarrow> (Inl err, c4)
                       | (Inr (respBody2, status2), c4) \<Rightarrow> (Inr (respBody2, status2), c4)))
               else (Inr (respBody, status), c2)))"

subsection \<open>Configuration objects\<close>

text \<open>\<^verbatim>\<open>strings.Contains\<close>.\<close>

fun hasPrefix :: "string \<Rightarrow> string \<Rightarrow> bool" where
  "hasPrefix s [] = True"
| "hasPrefix [] (p # ps) = False"
| "hasPrefix (x # xs) (p # ps) = (x = p \<and> hasPrefix xs ps)"

fun contains :: "string \<Rightarrow> string \<Rightarrow> bool" where
  "contains [] sub = (sub = [])"
| "contains (x # xs) sub = (hasPrefix (x # xs) sub \<or> contains xs sub)"

definition non2xx :: "int \<Rightarrow> bool" where
  "non2xx status = (status < 200 \<or> status \<ge> 300)"

definition statusError :: "string \<Rightarrow> string \<Rightarrow> int \<Rightarrow> string \<Rightarrow> error" where
  "statusError method endpoint status body =
     Errorf (method @ '' %s returned %d: %s'') [S endpoint, D status, S body]"

text \<open>The tail shared by \<^verbatim>\<open>Create\<close> and \<^verbatim>\<open>Update\<close>: status check, then decoding.\<close>

definition decodeResult :: "'w env \<Rightarrow> string \<Rightarrow> string \<Rightarrow> string \<Rightarrow> int \<Rightarrow> error + jmap option" where
  "decodeResult env method endpoint body status =
     (if non2xx status then Inl (statusError method endpoint status body)
      else (case unmarshal_map env body of
              Inl err \<Rightarrow> Inl (Errorf ''unmarshaling response: %w'' [W err])
            | Inr result \<Rightarrow> Inr result))"

definition isSoftDeleteConflict :: "int \<Rightarrow> string \<Rightarrow> bool" where
  "isSoftDeleteConflict status body = (status = 500 \<and> contains body ''Unique constraint failed'')"

definition tableFor :: "string \<Rightarrow> string" where
  "tableFor resourceType =
     (if resourceType = ''link'' then ''ConfigurationObjectLink'' else ''ConfigurationObject'')"

definition Create ::
  "'w env \<Rightarrow> 'w client \<Rightarrow> string \<Rightarrow> string \<Rightarrow> jmap \<Rightarrow> (error + jmap option) \<times> 'w client" where
  "Create env c workspaceID resourceType payload =
     (let endpoint = configURL env c workspaceID resourceType in
      case doRequest env c ''POST'' endpoint (Some payload) of
        (Inl err, c1) \<Rightarrow> (Inl err, c1)
      | (Inr (body, status), c1) \<Rightarrow>
          if isSoftDeleteConflict status body then
            (case get_string (Some payload) ''id'' of
               None \<Rightarrow>
                 (Inl (Errorf ''POST %s returned soft-delete conflict but payload has no 'id' field''
                         [S endpoint]), c1)
             | Some ident \<Rightarrow>
                 if ident = [] then
                   (Inl (Errorf ''POST %s returned soft-delete conflict but payload has no 'id' field''
                           [S endpoint]), c1)
                 else
                   (case hardDeleteSoftDeleted env c1 ident (tableFor resourceType) of
                      (Inl err, c2) \<Rightarrow>
                        (Inl (Errorf ''POST failed (soft-delete conflict) and cleanup failed: %w''
                                [W err]), c2)
                    | (Inr _, c2) \<Rightarrow>
                        (case doRequest env c2 ''POST'' endpoint (Some payload) of
                           (Inl err, c3) \<Rightarrow> (Inl err, c3)
                         | (Inr (body2, status2), c3) \<Rightarrow>
                             (decodeResult env ''POST'' endpoint body2 status2, c3))))
          else (decodeResult env ''POST'' endpoint body status, c1))"

definition Read ::
  "'w env \<Rightarrow> 'w client \<Rightarrow> string \<Rightarrow> string \<Rightarrow> string \<Rightarrow> (error + jmap option) \<times> 'w client" where
  "Read env c workspaceID resourceType ident =
     (let endpoint = configItemURL env c workspaceID resourceType ident in
      case doRequest env c ''GET'' endpoint None of
        (Inl err, c1) \<Rightarrow> (Inl err, c1)
      | (Inr (body, status), c1) \<Rightarrow>
          if status = 404 then (Inr None, c1)
          else if non2xx status then (Inl (statusError ''GET'' endpoint status body), c1)
          else
            (case unmarshal_map env body of
               Inl err \<Rightarrow> (Inl (Errorf ''unmarshaling response: %w'' [W err]), c1)
             | Inr result \<Rightarrow>
                 if get_bool result ''deleted'' = Some True then (Inr None, c1)
                 else (Inr result, c1)))"

definition Update ::
  "'w env \<Rightarrow> 'w client \<Rightarrow> string \<Rightarrow> string \<Rightarrow> string \<Rightarrow> jmap \<Rightarrow> (error + jmap option) \<times> 'w client" where
  "Update env c workspaceID resourceType ident payload =
     (let endpoint = configItemURL env c workspaceID resourceType ident in
      case doRequest env c ''PUT'' endpoint (Some payload) of
        (Inl err, c1) \<Rightarrow> (Inl err, c1)
      | (Inr (body, status), c1) \<Rightarrow> (decodeResult env ''PUT'' endpoint body status, c1))"

definition Delete ::
  "'w env \<Rightarrow> 'w client \<Rightarrow> string \<Rightarrow> string \<Rightarrow> string \<Rightarrow> (error + unit) \<times> 'w client" where
  "Delete env c workspaceID resourceType ident =
     (let endpoint = configItemURL env c workspaceID resourceType ident in
      case doRequest env c ''DELETE'' endpoint None of
        (Inl err, c1) \<Rightarrow> (Inl err, c1)
      | (Inr (body, status), c1) \<Rightarrow>
          if non2xx status then (Inl (statusError ''DELETE'' endpoint status body), c1)
          else (Inr (), c1))"


definition DeleteLink ::
  "'w env \<Rightarrow> 'w client \<Rightarrow> string \<Rightarrow> string \<Rightarrow> (error + unit) \<times> 'w client" where
  "DeleteLink env c workspaceID ident =
     (let endpoint = consoleURL c @ ''/api/'' @ pathEscape env workspaceID @ ''/config/link?id=''
                       @ queryEscape env ident in
      case doRequest env c ''DELETE'' endpoint None of
        (Inl err, c1) \<Rightarrow> (Inl err, c1)
      | (Inr (body, status), c1) \<Rightarrow>
          if non2xx status then (Inl (statusError ''DELETE'' endpoint status body), c1)
          else (Inr (), c1))"

subsection \<open>Workspaces\<close>

definition WorkspaceCreate ::
  "'w env \<Rightarrow> 'w client \<Rightarrow> string \<Rightarrow> string \<Rightarrow> (error + string) \<times> 'w client" where
  "WorkspaceCreate env c name slug =
     (let payload = [(''name'', JString name), (''slug'', JString slug)];
          endpoint = workspaceURL c in
      case doRequest env c ''POST'' endpoint (Some payload) of
        (Inl err, c1) \<Rightarrow> (Inl err, c1)
      | (Inr (body, status), c1) \<Rightarrow>
          if non2xx status then
            (if status = 500 \<and> contains body ''WorkspaceAccess_userId_fkey'' then
               (Inl (Errorf ''workspace creation failed due to missing/invalid user session context: %s''
                       [S body]), c1)
             else (Inl (statusError ''POST'' endpoint status body), c1))
          else
            (case unmarshal_map env body of
               Inl err \<Rightarrow> (Inl (Errorf ''unmarshaling response: %w'' [W err]), c1)
             | Inr result \<Rightarrow>
                 (case get_string result ''id'' of
                    None \<Rightarrow> (Inl (Errorf ''POST %s did not return workspace id'' [S endpoint]), c1)
                  | Some ident \<Rightarrow>
                      if ident = [] then
                        (Inl (Errorf ''POST %s did not return workspace id'' [S endpoint]), c1)
                      else (Inr ident, c1))))"

definition WorkspaceRead ::
  "'w env \<Rightarrow> 'w client \<Rightarrow> string \<Rightarrow> (error + jmap option) \<times> 'w client" where
  "WorkspaceRead env c idOrSlug =
     (let endpoint = workspaceItemURL env c idOrSlug in
      case doRequest env c ''GET'' endpoint None of
        (Inl err, c1) \<Rightarrow> (Inl err, c1)
      | (Inr (body, status), c1) \<Rightarrow>
          if status = 404 then (Inr None, c1)
          else if non2xx status then (Inl (statusError ''GET'' endpoint status body), c1)
          else
            (case unmarshal_map env body of
               Inl err \<Rightarrow> (Inl (Errorf ''unmarshaling response: %w'' [W err]), c1)
             | Inr result \<Rightarrow>
                 if get_bool result ''deleted'' = Some True then (Inr None, c1)
                 else (Inr result, c1)))"

definition WorkspaceUpdate ::
  "'w env \<Rightarrow> 'w client \<Rightarrow> string \<Rightarrow> string \<Rightarrow> string \<Rightarrow> (error + jmap option) \<times> 'w client" where
  "WorkspaceUpdate env c idOrSlug name slug =
     (let payload = [(''name'', JString name), (''slug'', JString slug)];
          endpoint = workspaceItemURL env c idOrSlug in
      case doRequest env c ''PUT'' endpoint (Some payload) of
        (Inl err, c1) \<Rightarrow> (Inl err, c1)
      | (Inr (body, status), c1) \<Rightarrow> (decodeResult env ''PUT'' endpoint body status, c1))"

definition WorkspaceDelete ::
  "'w env \<Rightarrow> 'w client \<Rightarrow> string \<Rightarrow> (error + unit) \<times> 'w client" where
  "WorkspaceDelete env c workspaceID =
     (let payload = [(''workspaceId'', JString workspaceID)];
          endpoint = workspaceURL c in
      case doRequest env c ''DELETE'' endpoint (Some payload) of
        (Inl err, c1) \<Rightarrow> (Inl err, c1)
      | (Inr (body, status), c1) \<Rightarrow>
          if status = 404 then (Inr (), c1)
          else if non2xx status then (Inl (statusError ''DELETE'' endpoint status body), c1)
          else (Inr (), c1))"

subsection \<open>The workspace resource\<close>

text \<open>
  \<^verbatim>\<open>types.String\<close> of the plugin framework, with \<^verbatim>\<open>ValueString\<close>; diagnostics with their
  summary and detail (a detail built by \<^verbatim>\<open>fmt.Sprintf\<close> is kept like an \<^verbatim>\<open>Errorf\<close>, and
  \<open>W e\<close> under \<^verbatim>\<open>%s\<close> stands for \<^verbatim>\<open>e.Error()\<close>).
\<close>

datatype tf_string = StringNull | StringUnknown | StringValue string

definition ValueString :: "tf_string \<Rightarrow> string" where
  "ValueString v = (case v of StringValue s \<Rightarrow> s | _ \<Rightarrow> [])"

record workspaceModel =
  ID :: tf_string
  Name :: tf_string
  Slug :: tf_string

datatype diagnostic = DiagError string error | DiagWarning string error

definition HasError :: "diagnostic list \<Rightarrow> bool" where
  "HasError ds = list_ex (\<lambda>d. case d of DiagError _ _ \<Rightarrow> True | DiagWarning _ _ \<Rightarrow> False) ds"

text \<open>
  \<^verbatim>\<open>resource.CreateRequest\<close>: the plan and the diagnostics reading it gives.
  \<^verbatim>\<open>resource.CreateResponse\<close>: the diagnostics and the state (\<open>None\<close> until set);
  \<^verbatim>\<open>resp.State.Set\<close> stores the model.
\<close>

record createRequest =
  plan :: workspaceModel
  planDiags :: "diagnostic list"

record createResponse =
  diagnostics :: "diagnostic list"
  state :: "workspaceModel option"

definition AddError :: "string \<Rightarrow> error \<Rightarrow> createResponse \<Rightarrow> createResponse" where
  "AddError summary detail resp = resp\<lparr>diagnostics := diagnostics resp @ [DiagError summary detail]\<rparr>"

definition workspaceResource_Create ::
  "'w env \<Rightarrow> 'w client \<Rightarrow> createRequest \<Rightarrow> createResponse \<Rightarrow> createResponse \<times> 'w client" where
  "workspaceResource_Create env c req resp0 =
     (let resp = resp0\<lparr>diagnostics := diagnostics resp0 @ planDiags req\<rparr> in
      if HasError (diagnostics resp) then (resp, c)
      else
        (case WorkspaceCreate env c (ValueString (Name (plan req))) (ValueString (Slug (plan req))) of
           (Inl err, c1) \<Rightarrow> (AddError ''Error creating workspace'' err resp, c1)
         | (Inr ident, c1) \<Rightarrow>
             (case WorkspaceUpdate env c1 ident (ValueString (Name (plan req)))
                     (ValueString (Slug (plan req))) of
                (Inl err, c2) \<Rightarrow>
                  (case WorkspaceDelete env c2 ident of
                     (Inl rollbackErr, c3) \<Rightarrow>
                       (AddError ''Error finalizing workspace creation''
                          (Errorf ''%s. Rollback failed for workspace %q: %s''
                             [W err, Q ident, W rollbackErr]) resp, c3)
                   | (Inr _, c3) \<Rightarrow>
                       (AddError ''Error finalizing workspace creation''
                          (Errorf ''%s. Rolled back newly-created workspace %q.'' [W err, Q ident])
                          resp, c3))
              | (Inr _, c2) \<Rightarrow>
                  (resp\<lparr>state := Some ((plan req)\<lparr>ID := StringValue ident\<rparr>)\<rparr>, c2))))"

subsection \<open>What the statements mean\<close>

text \<open>
  A table is a list of rows; a row has its text columns and the boolean column
  \<^verbatim>\<open>deleted\<close>. \<^verbatim>\<open>DELETE FROM t WHERE w\<close> removes from \<open>t\<close> the rows on which \<open>w\<close> holds and
  touches no other table. A comparison with a column the row lacks (SQL \<^verbatim>\<open>NULL\<close>) does
  not hold.
\<close>

record row =
  cols :: "(string \<times> string) list"
  deleted :: bool

type_synonym database = "string \<Rightarrow> row list"

fun holds :: "cond \<Rightarrow> string \<Rightarrow> row \<Rightarrow> bool" where
  "holds DeletedIsTrue a r = deleted r"
| "holds (ColEqArg col) a r = (map_of (cols r) col = Some a)"
| "holds (And p q) a r = (holds p a r \<and> holds q a r)"
| "holds (Or p q) a r = (holds p a r \<or> holds q a r)"

fun run_stmt :: "stmt \<Rightarrow> database \<Rightarrow> database" where
  "run_stmt (DeleteFrom t w a) db = db(t := filter (\<lambda>r. \<not> holds w a r) (db t))"

fun stmt_where :: "stmt \<Rightarrow> cond" where
  "stmt_where (DeleteFrom t w a) = w"

text \<open>A predicate "carries \<^verbatim>\<open>deleted = true\<close>": it cannot hold unless that conjunct does.\<close>

fun requiresDeleted :: "cond \<Rightarrow> bool" where
  "requiresDeleted DeletedIsTrue = True"
| "requiresDeleted (ColEqArg col) = False"
| "requiresDeleted (And p q) = (requiresDeleted p \<or> requiresDeleted q)"
| "requiresDeleted (Or p q) = (requiresDeleted p \<and> requiresDeleted q)"

subsection \<open>Reading the trace\<close>

fun stmts_of :: "event list \<Rightarrow> stmt list" where
  "stmts_of [] = []"
| "stmts_of (SqlExec st # es) = st # stmts_of es"
| "stmts_of (e # es) = stmts_of es"

fun exchanges_of :: "event list \<Rightarrow> request list" where
  "exchanges_of [] = []"
| "exchanges_of (HttpDo rq # es) = rq # exchanges_of es"
| "exchanges_of (e # es) = exchanges_of es"

fun logs_of :: "event list \<Rightarrow> event list" where
  "logs_of [] = []"
| "logs_of (Log l m f # es) = Log l m f # logs_of es"
| "logs_of (e # es) = logs_of es"

text \<open>What an operation taking the client from \<open>c\<close> to \<open>c'\<close> appended to the trace.\<close>

definition since :: "'w client \<Rightarrow> 'w client \<Rightarrow> event list" where
  "since c c' = drop (length (trace c)) (trace c')"

text \<open>
  Relations between the client before and after an operation. The configuration fields
  are never assigned after \<open>New\<close>; a session step may flip the session flag and appends
  HTTP exchanges only (no log line, no statement).
\<close>

definition sameConfig :: "'w client \<Rightarrow> 'w client \<Rightarrow> bool" where
  "sameConfig c c' =
     (consoleURL c' = consoleURL c \<and> username c' = username c \<and> password c' = password c \<and>
      databaseURL c' = databaseURL c \<and> userAgent c' = userAgent c)"

definition authStep :: "'w client \<Rightarrow> 'w client \<Rightarrow> bool" where
  "authStep c c' =
     (sameConfig c c' \<and> dbOnce c' = dbOnce c \<and> dbErr c' = dbErr c \<and>
      (\<exists>d. trace c' = trace c @ d \<and> logs_of d = [] \<and> stmts_of d = []))"

text \<open>The session flag is only ever set by a client that holds credentials.\<close>

definition sessionOK :: "'w client \<Rightarrow> bool" where
  "sessionOK c = (authenticated c \<longrightarrow> username c \<noteq> [] \<and> password c \<noteq> [])"

text \<open>How many exchanges in a trace carried the given method to the given URL.\<close>

definition sentTo :: "string \<Rightarrow> string \<Rightarrow> event list \<Rightarrow> nat" where
  "sentTo method requestURL tr =
     length (filter (\<lambda>rq. req_method rq = method \<and> req_url rq = requestURL) (exchanges_of tr))"

text \<open>Whether \<^verbatim>\<open>send\<close> gets as far as the exchange: the body marshals and the request
  can be made. Both depend on the arguments only.\<close>

definition requestBuilds :: "'w env \<Rightarrow> string \<Rightarrow> string \<Rightarrow> jmap option \<Rightarrow> bool" where
  "requestBuilds env method requestURL body =
     (newRequestErr env method requestURL = None \<and>
      (case body of None \<Rightarrow> True | Some payload \<Rightarrow> \<not> isl (jsonMarshal env payload)))"

text \<open>The bytes \<^verbatim>\<open>send\<close> puts into the request for a body.\<close>

definition marshalled :: "'w env \<Rightarrow> jmap option \<Rightarrow> string option" where
  "marshalled env body =
     (case body of
        None \<Rightarrow> None
      | Some payload \<Rightarrow> (case jsonMarshal env payload of Inl e \<Rightarrow> None | Inr bytes \<Rightarrow> Some bytes))"

text \<open>The statements a purge of \<open>ident\<close> in \<open>table\<close> sends, in order.\<close>

definition purgeStatements :: "'w env \<Rightarrow> 'w client \<Rightarrow> string \<Rightarrow> string \<Rightarrow> stmt list" where
  "purgeStatements env c ident table =
     stmts_of (since c (snd (hardDeleteSoftDeleted env c ident table)))"

subsection \<open>What stands in the way of a session\<close>

text \<open>
  The conditions under which no session can be established, read off the environment's
  answers in the order the exchange meets them: no credentials; the token request cannot
  be made, sent or read; its status is not 2xx; its body does not decode; the token is
  empty; the credential-exchange request cannot be made, sent or read; the exchange
  answers with some status. \<open>authFails\<close> says which outcomes are failures: all but a
  session that is already marked authenticated and an exchange status in [200,400).
\<close>

datatype auth_outcome =
    CredentialsAbsent
  | AlreadyAuthenticated
  | TokenFetchFailed
  | TokenFetchStatus int
  | TokenUndecodable
  | TokenEmpty
  | ExchangeFailed
  | ExchangeStatus int

definition csrfRequest :: "'w client \<Rightarrow> request" where
  "csrfRequest c =
     \<lparr> req_method = ''GET'', req_url = csrfURL c,
       req_headers = (if userAgent c \<noteq> [] then [(''User-Agent'', userAgent c)] else []),
       req_body = None, req_follow_redirects = True \<rparr>"

definition exchangeOutcome :: "'w env \<Rightarrow> 'w client \<Rightarrow> string \<Rightarrow> 'w \<Rightarrow> auth_outcome" where
  "exchangeOutcome env c token w =
     (case newRequestErr env ''POST'' (loginURL c) of
        Some e \<Rightarrow> ExchangeFailed
      | None \<Rightarrow>
          (case fst (httpDo env (loginRequest env c token) w) of
             DoError e \<Rightarrow> ExchangeFailed
           | ReadError st e \<Rightarrow> ExchangeFailed
           | Response st body \<Rightarrow> ExchangeStatus st))"

definition authOutcome :: "'w env \<Rightarrow> 'w client \<Rightarrow> auth_outcome" where
  "authOutcome env c =
     (if username c = [] \<or> password c = [] then CredentialsAbsent
      else if authenticated c then AlreadyAuthenticated
      else
        (case newRequestErr env ''GET'' (csrfURL c) of
           Some e \<Rightarrow> TokenFetchFailed
         | None \<Rightarrow>
             (case httpDo env (csrfRequest c) (world c) of
                (DoError e, w) \<Rightarrow> TokenFetchFailed
              | (ReadError st e, w) \<Rightarrow> TokenFetchFailed
              | (Response st body, w) \<Rightarrow>
                  if st < 200 \<or> st \<ge> 300 then TokenFetchStatus st
                  else
                    (case unmarshal_csrf env body of
                       Inl e \<Rightarrow> TokenUndecodable
                     | Inr token \<Rightarrow>
                         if token = [] then TokenEmpty else exchangeOutcome env c token w))))"

fun authFails :: "auth_outcome \<Rightarrow> bool" where
  "authFails AlreadyAuthenticated = False"
| "authFails (ExchangeStatus st) = (st < 200 \<or> st \<ge> 400)"
| "authFails outcome = True"

subsection \<open>A scripted environment\<close>

text \<open>
  A server and a database that answer from a script, one entry per exchange or statement,
  for running the client on concrete inputs. The library functions are given on the
  inputs used: identifiers without reserved characters escape to themselves,
  \<open>sampleParse\<close> knows the bodies listed, and of the number literals in them only
  \<^verbatim>\<open>1e400\<close> is beyond \<^verbatim>\<open>float64\<close>.
\<close>

record script =
  httpScript :: "http_result list"
  sqlScript :: "error option list"

definition scriptedDo :: "request \<Rightarrow> script \<Rightarrow> http_result \<times> script" where
  "scriptedDo req w =
     (case httpScript w of
        [] \<Rightarrow> (DoError (External ''connection refused''), w)
      | r # rs \<Rightarrow> (r, w\<lparr>httpScript := rs\<rparr>))"

definition scriptedExec :: "stmt \<Rightarrow> script \<Rightarrow> error option \<times> script" where
  "scriptedExec st w =
     (case sqlScript w of
        [] \<Rightarrow> (Some (External ''connection refused''), w)
      | r # rs \<Rightarrow> (r, w\<lparr>sqlScript := rs\<rparr>))"

definition sampleParse :: "string \<Rightarrow> error + json" where
  \<open>sampleParse body =
     (case map_of
        [(''{"csrfToken":"tok"}'', JObject [(''csrfToken'', JString ''tok'')]),
         (''{"csrfToken":""}'', JObject [(''csrfToken'', JString [])]),
         (''{"id":"ws1"}'', JObject [(''id'', JString ''ws1'')]),
         (''{"id":"s1"}'', JObject [(''id'', JString ''s1'')]),
         (''{"id":"s1","deleted":true}'', JObject [(''id'', JString ''s1''), (''deleted'', JBool True)]),
         (''{"objects":[{"id":"s1"}]}'', JObject [(''objects'', JArray [JObject [(''id'', JString ''s1'')]])]),
         (''{"links":[{"id":"l1"}]}'', JObject [(''links'', JArray [JObject [(''id'', JString ''l1'')]])]),
         (''{"id":"s1","deleted":true,"rev":1e400}'',
            JObject [(''id'', JString ''s1''), (''deleted'', JBool True), (''rev'', JNumber ''1e400'')]),
         (''{"objects":[{"id":"s1","rev":1e400}]}'',
            JObject [(''objects'', JArray [JObject [(''id'', JString ''s1''), (''rev'', JNumber ''1e400'')]])]),
         (''{}'', JObject []),
         (''null'', JNull)] body of
        Some v \<Rightarrow> Inr v
      | None \<Rightarrow> Inl (External ''invalid character''))\<close>

text \<open>Rendering of a payload, members in the order given, strings without escapes.\<close>

fun render :: "json \<Rightarrow> string"
  and renderElems :: "json list \<Rightarrow> string"
  and renderMembers :: "(string \<times> json) list \<Rightarrow> string" where
  "render JNull = ''null''"
| "render (JBool b) = (if b then ''true'' else ''false'')"
| "render (JNumber n) = n"
| "render (JString s) = [CHR 0x22] @ s @ [CHR 0x22]"
| "render (JArray vs) = ''['' @ renderElems vs @ '']''"
| "render (JObject kvs) = ''{'' @ renderMembers kvs @ ''}''"
| "renderElems [] = []"
| "renderElems [v] = render v"
| "renderElems (v # w # vs) = render v @ '','' @ renderElems (w # vs)"
| "renderMembers [] = []"
| "renderMembers [(k, v)] = [CHR 0x22] @ k @ [CHR 0x22] @ '':'' @ render v"
| "renderMembers ((k, v) # m # kvs) =
     [CHR 0x22] @ k @ [CHR 0x22] @ '':'' @ render v @ '','' @ renderMembers (m # kvs)"

fun joinForm :: "(string \<times> string) list \<Rightarrow> string" where
  "joinForm [] = []"
| "joinForm [(k, v)] = k @ ''='' @ v"
| "joinForm ((k, v) # m # kvs) = k @ ''='' @ v @ ''&'' @ joinForm (m # kvs)"

definition scriptedEnv :: "script env" where
  "scriptedEnv =
     \<lparr> newRequestErr = (\<lambda>m u. None),
       httpDo = scriptedDo,
       jsonMarshal = (\<lambda>payload. Inr (render (JObject payload))),
       jsonParse = sampleParse,
       numberFits = (\<lambda>n. n \<noteq> ''1e400''),
       fieldNameMatches = (\<lambda>f k. f = k),
       formEncode = joinForm,
       pathEscape = (\<lambda>s. s),
       queryEscape = (\<lambda>s. s),
       sqlOpen = (\<lambda>u. None),
       sqlExec = scriptedExec \<rparr>"

definition sampleClient :: "string \<Rightarrow> http_result list \<Rightarrow> error option list \<Rightarrow> script client" where
  "sampleClient dburl rs qs =
     New ''https://jitsu.example/'' ''admin'' ''secret'' dburl ''terraform-provider-jitsu''
       \<lparr> httpScript = rs, sqlScript = qs \<rparr>"

text \<open>The two answers of a successful login: the token, then the redirect.\<close>

definition tokenBody :: string where
  \<open>tokenBody = ''{"csrfToken":"tok"}''\<close>

definition loginOK :: "http_result list" where
  "loginOK = [Response 200 tokenBody, Response 302 []]"

text \<open>A login followed by the control plane's answer to a POST that hits a soft-deleted row.\<close>

definition conflictScript :: "http_result list" where
  "conflictScript = loginOK @ [Response 500 ''Unique constraint failed on the fields: (id)'']"

definition deletedBody :: string where
  \<open>deletedBody = ''{"id":"s1","deleted":true}''\<close>

definition overflowDeletedBody :: string where
  \<open>overflowDeletedBody = ''{"id":"s1","deleted":true,"rev":1e400}''\<close>

text \<open>A plan for a new workspace, an empty response, and a server that creates the
  workspace, rejects the follow-up update and accepts the delete.\<close>

definition samplePlan :: createRequest where
  "samplePlan = \<lparr> plan = \<lparr> ID = StringUnknown, Name = StringValue ''Main'', Slug = StringValue ''main'' \<rparr>,
                   planDiags = [] \<rparr>"

definition emptyResponse :: createResponse where
  "emptyResponse = \<lparr> diagnostics = [], state = None \<rparr>"

definition rollbackScript :: "http_result list" where
  \<open>rollbackScript = loginOK @ [Response 200 ''{"id":"ws1"}'', Response 500 ''boom'', Response 200 ''{}'']\<close>

text \<open>The DELETE that takes back workspace \<^verbatim>\<open>ws1\<close>, as the sample client sends it.\<close>

definition deleteWorkspaceRequest :: request where
  \<open>deleteWorkspaceRequest =
     \<lparr> req_method = ''DELETE'', req_url = ''https://jitsu.example/api/workspace'',
       req_headers = [(''User-Agent'', ''terraform-provider-jitsu''), (''Content-Type'', ''application/json'')],
       req_body = Some ''{"workspaceId":"ws1"}'', req_follow_redirects = True \<rparr>\<close>

text \<open>The same server, except that it rejects the delete as well.\<close>

definition rollbackFailsScript :: "http_result list" where
  \<open>rollbackFailsScript = loginOK @ [Response 200 ''{"id":"ws1"}'', Response 500 ''boom'', Response 500 ''stuck'']\<close>

text \<open>A database with a soft-deleted and an active object, and a soft-deleted and an active
  link between them.\<close>

definition sampleDB :: database where
  "sampleDB =
     (\<lambda>t. if t = ''ConfigurationObject'' then
            [\<lparr> cols = [(''id'', ''s1'')], deleted = True \<rparr>,
             \<lparr> cols = [(''id'', ''s2'')], deleted = False \<rparr>]
          else if t = ''ConfigurationObjectLink'' then
            [\<lparr> cols = [(''id'', ''l1''), (''fromId'', ''s1''), (''toId'', ''s2'')], deleted = True \<rparr>,
             \<lparr> cols = [(''id'', ''l2''), (''fromId'', ''s2''), (''toId'', ''s1'')], deleted = False \<rparr>]
          else [])"

text \<open>Servers for the request executor: one whose session has expired and accepts a new
  login, and one that turns the new login away.\<close>

definition retryScript :: "http_result list" where
  "retryScript = loginOK @ [Response 401 ''unauthorized''] @ loginOK @ [Response 200 ''{}'']"

definition sampleURL :: string where
  "sampleURL = ''https://jitsu.example/api/ws1/config/stream''"

definition reauthFailScript :: "http_result list" where
  "reauthFailScript = loginOK @ [Response 401 ''unauthorized'', Response 500 ''down'']"

text \<open>A payload with an id, and a server that reports the conflict and accepts the POST
  when it comes again.\<close>

definition samplePayload :: jmap where
  "samplePayload = [(''id'', JString ''s1''), (''name'', JString ''Site'')]"

definition recreateScript :: "http_result list" where
  \<open>recreateScript = conflictScript @ [Response 200 ''{"id":"s1"}'']\<close>





text \<open>A server that hands out the token and then drops the connection.\<close>

definition tokenOnlyScript :: "http_result list" where
  "tokenOnlyScript = [Response 200 tokenBody]"

section \<open>Properties\<close>

subsection \<open>What each step leaves alone\<close>

lemma trace_emit [simp]: "trace (emit e c) = trace c @ [e]"
  by (simp add: emit_def)

lemma logs_of_append [simp]: "logs_of (xs @ ys) = logs_of xs @ logs_of ys"
  by (induction xs rule: logs_of.induct) simp_all

lemma stmts_of_append [simp]: "stmts_of (xs @ ys) = stmts_of xs @ stmts_of ys"
  by (induction xs rule: stmts_of.induct) simp_all

lemma exchanges_of_append [simp]: "exchanges_of (xs @ ys) = exchanges_of xs @ exchanges_of ys"
  by (induction xs rule: exchanges_of.induct) simp_all

lemma since_append: "trace c' = trace c @ d \<Longrightarrow> since c c' = d"
  by (simp add: since_def)

lemma since_self [simp]: "since c c = []"
  by (simp add: since_def)

lemma do_http_step:
  "do_http env rq c = (r, c') \<Longrightarrow>
     sameConfig c c' \<and> dbOnce c' = dbOnce c \<and> dbErr c' = dbErr c \<and> authenticated c' = authenticated c \<and>
     trace c' = trace c @ [HttpDo rq]"
  by (auto simp: do_http_def sameConfig_def emit_def split: prod.splits)

lemma rawRequest_step:
  assumes "rawRequest env c m u b hs = (r, c')"
  shows "authStep c c' \<and> authenticated c' = authenticated c"
  using assms
  by (auto simp: rawRequest_def authStep_def sameConfig_def Let_def
           split: option.splits prod.splits http_result.splits dest!: do_http_step)

lemma login_step:
  assumes "login env c tok = (r, c')"
  shows "authStep c c'"
  using assms
  by (auto simp: login_def authStep_def sameConfig_def
           split: option.splits prod.splits http_result.splits if_splits dest!: do_http_step)


lemma authStep_refl [simp]: "authStep c c"
  by (simp add: authStep_def sameConfig_def)

lemma authStep_trans: "authStep a b \<Longrightarrow> authStep b c \<Longrightarrow> authStep a c"
  by (auto simp: authStep_def sameConfig_def)

lemma authStep_flag [simp]: "authStep c (c'\<lparr>authenticated := f\<rparr>) = authStep c c'"
  by (simp add: authStep_def sameConfig_def)

lemma authenticate_step:
  assumes "authenticate env c = (r, c')"
  shows "authStep c c'"
proof (cases "username c = [] \<or> password c = [] \<or> authenticated c")
  case True
  with assms show ?thesis by (auto simp: authenticate_def split: if_splits)
next
  case False
  obtain r1 c1 where raw: "rawRequest env c ''GET'' (csrfURL c) None [] = (r1, c1)"
    by (cases "rawRequest env c ''GET'' (csrfURL c) None []") auto
  from rawRequest_step [OF raw] have s1: "authStep c c1" by simp
  show ?thesis
  proof (cases r1)
    case (Inl e)
    with assms False raw s1 show ?thesis by (simp add: authenticate_def)
  next
    case (Inr p)
    obtain body st where p: "p = (body, st)" by (cases p) auto
    show ?thesis
    proof (cases "\<exists>tok. \<not> (st < 200 \<or> 300 \<le> st) \<and> unmarshal_csrf env body = Inr tok \<and> tok \<noteq> []")
      case True
      then obtain tok where tok: "\<not> (st < 200 \<or> 300 \<le> st)" "unmarshal_csrf env body = Inr tok" "tok \<noteq> []"
        by blast
      with assms False raw Inr p have "login env c1 tok = (r, c')"
        by (simp add: authenticate_def)
      from login_step [OF this] s1 show ?thesis by (rule authStep_trans [rotated])
    next
      case no: False
      with assms False raw Inr p have "c' = c1"
        by (auto simp: authenticate_def split: if_splits sum.splits)
      with s1 show ?thesis by simp
    qed
  qed
qed

lemma authenticate_ok_flag:
  "authenticate env c = (Inr u, c') \<Longrightarrow> authenticated c' \<and> username c \<noteq> [] \<and> password c \<noteq> []"
  by (auto simp: authenticate_def login_def
           split: if_splits prod.splits sum.splits option.splits http_result.splits
           dest!: do_http_step)


lemma send_config:
  assumes "send env c m u b = (r, c')"
  shows "sameConfig c c' \<and> dbOnce c' = dbOnce c \<and> dbErr c' = dbErr c \<and> authenticated c' = authenticated c"
  using assms
  by (auto simp: send_def sameConfig_def emit_def
           split: option.splits sum.splits prod.splits http_result.splits dest!: do_http_step)

lemma sameConfig_trans: "sameConfig a b \<Longrightarrow> sameConfig b c \<Longrightarrow> sameConfig a c"
  by (simp add: sameConfig_def)

lemma sameConfig_refl [simp]: "sameConfig c c"
  by (simp add: sameConfig_def)

lemma sameConfig_mark [simp]: "sameConfig c (markUnauthenticated c') = sameConfig c c'"
  by (simp add: sameConfig_def markUnauthenticated_def)

lemma sameConfig_emit [simp]: "sameConfig c (emit e c') = sameConfig c c'"
  by (simp add: sameConfig_def emit_def)

lemma authenticate_config: "authenticate env c = (r, c') \<Longrightarrow> sameConfig c c'"
  using authenticate_step [of env c r c'] by (simp add: authStep_def)

lemma doRequest_config:
  assumes "doRequest env c m u b = (r, c')"
  shows "sameConfig c c'"
proof -
  obtain r1 c1 where a1: "authenticate env c = (r1, c1)" by (cases "authenticate env c") auto
  obtain r2 c2 where s1: "send env c1 m u b = (r2, c2)" by (cases "send env c1 m u b") auto
  let ?c2 = "markUnauthenticated (emit (logAuthRetry m u (snd (projr r2))) c2)"
  obtain r3 c3 where a2: "authenticate env ?c2 = (r3, c3)" by (cases "authenticate env ?c2") auto
  obtain r4 c4 where s2: "send env c3 m u b = (r4, c4)" by (cases "send env c3 m u b") auto
  have k1: "sameConfig c c1" using a1 by (rule authenticate_config)
  have k2: "sameConfig c c2" using k1 send_config [OF s1] by (blast intro: sameConfig_trans)
  have k3: "sameConfig c c3" using k2 authenticate_config [OF a2]
    by (auto simp: sameConfig_def markUnauthenticated_def emit_def)
  have k4: "sameConfig c c4" using k3 send_config [OF s2] by (blast intro: sameConfig_trans)
  from assms a1 s1 a2 s2 have "c' = c1 \<or> c' = c2 \<or> c' = c3 \<or> c' = c4"
    by (auto simp: doRequest_def split: sum.splits if_splits prod.splits)
  with k1 k2 k3 k4 show ?thesis by blast
qed

subsection \<open>The purge needs the database\<close>

lemma purge_no_db:
  "databaseURL c = [] \<Longrightarrow>
     hardDeleteSoftDeleted env c ident table =
       (Inl (Errorf ''cannot purge soft-deleted %q: %w''
          [Q ident, W databaseURLMissing]), c)"
  by (simp add: hardDeleteSoftDeleted_def getDB_def)

text \<open>
  Claim C5. Without a configured \<^verbatim>\<open>database_url\<close>, every purge returns the error that names
  the missing setting and says why it is required, and leaves the client as it was: no
  statement is issued, nothing is logged. A create that runs into the soft-delete conflict
  then fails with that error wrapped; it does not go on as if the purge had happened.
\<close>

theorem purge_requires_database_url:
  assumes "databaseURL c = []"
  shows "hardDeleteSoftDeleted env c ident table =
           (Inl (Errorf ''cannot purge soft-deleted %q: %w''
              [Q ident, W databaseURLMissing]), c)
         \<and> (case databaseURLMissing of
                Errorf msg args \<Rightarrow>
                  contains msg ''database_url not configured''
                  \<and> contains msg ''requires database_url to hard-delete stale rows''
              | External msg \<Rightarrow> False)
         \<and> stmts_of (since c (snd (hardDeleteSoftDeleted env c ident table))) = []
         \<and> (\<forall>body status c1 payload ws ty.
              doRequest env c ''POST'' (configURL env c ws ty) (Some payload) = (Inr (body, status), c1)
              \<and> isSoftDeleteConflict status body \<and> get_string (Some payload) ''id'' = Some ident \<and> ident \<noteq> []
              \<longrightarrow> Create env c ws ty payload =
                    (Inl (Errorf ''POST failed (soft-delete conflict) and cleanup failed: %w''
                            [W (Errorf ''cannot purge soft-deleted %q: %w'' [Q ident, W databaseURLMissing])]),
                     c1))"
proof -
  have "Create env c ws ty payload =
          (Inl (Errorf ''POST failed (soft-delete conflict) and cleanup failed: %w''
                  [W (Errorf ''cannot purge soft-deleted %q: %w'' [Q ident, W databaseURLMissing])]), c1)"
    if d: "doRequest env c ''POST'' (configURL env c ws ty) (Some payload) = (Inr (body, status), c1)"
      and k: "isSoftDeleteConflict status body" "get_string (Some payload) ''id'' = Some ident" "ident \<noteq> []"
    for body status c1 payload ws ty
  proof -
    from doRequest_config [OF d] assms have "databaseURL c1 = []" by (simp add: sameConfig_def)
    from purge_no_db [OF this] d k show ?thesis
      by (simp add: Create_def Let_def)
  qed
  moreover have "case databaseURLMissing of
                Errorf msg args \<Rightarrow>
                  contains msg ''database_url not configured''
                  \<and> contains msg ''requires database_url to hard-delete stale rows''
              | External msg \<Rightarrow> False"
    by code_simp
  ultimately show ?thesis using purge_no_db [OF assms] by simp
qed

theorem purge_requires_database_url_witness:
  "databaseURL (sampleClient [] conflictScript []) = []
   \<and> fst (hardDeleteSoftDeleted scriptedEnv (sampleClient [] conflictScript []) ''s1'' ''ConfigurationObject'') =
       Inl (Errorf ''cannot purge soft-deleted %q: %w''
              [Q ''s1'', W databaseURLMissing])
   \<and> stmts_of (trace (snd (hardDeleteSoftDeleted scriptedEnv (sampleClient [] conflictScript []) ''s1''
                             ''ConfigurationObject''))) = []
   \<and> fst (Create scriptedEnv (sampleClient [] conflictScript []) ''ws1'' ''stream'' [(''id'', JString ''s1'')]) =
       Inl (Errorf ''POST failed (soft-delete conflict) and cleanup failed: %w''
              [W (Errorf ''cannot purge soft-deleted %q: %w'' [Q ''s1'', W databaseURLMissing])])"
proof -
  let ?c = "sampleClient [] conflictScript [] :: script client"
  let ?d = "doRequest scriptedEnv ?c ''POST'' (configURL scriptedEnv ?c ''ws1'' ''stream'')
              (Some [(''id'', JString ''s1'')])"
  have h: "databaseURL ?c = []"
    by (simp add: sampleClient_def New_def)
  have "fst ?d = Inr (''Unique constraint failed on the fields: (id)'', 500)"
    by code_simp
  then have d: "?d = (Inr (''Unique constraint failed on the fields: (id)'', 500), snd ?d)"
    by (metis prod.collapse)
  have k: "isSoftDeleteConflict 500 ''Unique constraint failed on the fields: (id)''"
    by code_simp
  have g: "get_string (Some [(''id'', JString ''s1'')]) ''id'' = Some ''s1''"
    by code_simp
  note t = purge_requires_database_url [OF h, of scriptedEnv "''s1''" "''ConfigurationObject''"]
  from t d k g have "Create scriptedEnv ?c ''ws1'' ''stream'' [(''id'', JString ''s1'')] =
      (Inl (Errorf ''POST failed (soft-delete conflict) and cleanup failed: %w''
              [W (Errorf ''cannot purge soft-deleted %q: %w'' [Q ''s1'', W databaseURLMissing])]), snd ?d)"
    by blast
  then have "fst (Create scriptedEnv ?c ''ws1'' ''stream'' [(''id'', JString ''s1'')]) =
       Inl (Errorf ''POST failed (soft-delete conflict) and cleanup failed: %w''
              [W (Errorf ''cannot purge soft-deleted %q: %w'' [Q ''s1'', W databaseURLMissing])])"
    by simp
  with t h show ?thesis by (simp add: since_def sampleClient_def New_def)
qed

subsection \<open>The session\<close>

lemma sessionOK_New: "sessionOK (New console user pass dburl agent w)"
  by (simp add: sessionOK_def New_def)

lemma sessionOK_markUnauthenticated: "sessionOK (markUnauthenticated c)"
  by (simp add: sessionOK_def markUnauthenticated_def)

lemma sessionOK_authenticate:
  assumes "authenticate env c = (r, c')" "sessionOK c"
  shows "sessionOK c'"
proof (cases "authenticated c'")
  case False
  then show ?thesis by (simp add: sessionOK_def)
next
  case True
  show ?thesis
  proof (cases r)
    case (Inr u)
    with assms(1) authenticate_ok_flag [of env c u c'] authenticate_config [OF assms(1)]
    show ?thesis by (simp add: sessionOK_def sameConfig_def)
  next
    case (Inl e)
    with assms True have "authenticated c"
      by (auto simp: authenticate_def login_def
           split: if_splits prod.splits sum.splits option.splits http_result.splits
           dest!: do_http_step rawRequest_step)
    with assms(2) authenticate_config [OF assms(1)] show ?thesis
      by (simp add: sessionOK_def sameConfig_def)
  qed
qed

lemma sessionOK_send:
  "send env c m u b = (r, c') \<Longrightarrow> sessionOK c \<Longrightarrow> sessionOK c'"
  using send_config [of env c m u b r c'] by (simp add: sessionOK_def sameConfig_def)

lemma sessionOK_doRequest:
  assumes "doRequest env c m u b = (r, c')" "sessionOK c"
  shows "sessionOK c'"
proof -
  obtain r1 c1 where a1: "authenticate env c = (r1, c1)" by (cases "authenticate env c") auto
  obtain r2 c2 where s1: "send env c1 m u b = (r2, c2)" by (cases "send env c1 m u b") auto
  let ?c2 = "markUnauthenticated (emit (logAuthRetry m u (snd (projr r2))) c2)"
  obtain r3 c3 where a2: "authenticate env ?c2 = (r3, c3)" by (cases "authenticate env ?c2") auto
  obtain r4 c4 where s2: "send env c3 m u b = (r4, c4)" by (cases "send env c3 m u b") auto
  have k1: "sessionOK c1" using a1 assms(2) by (rule sessionOK_authenticate)
  have k2: "sessionOK c2" using s1 k1 by (rule sessionOK_send)
  have k3: "sessionOK c3" using a2 sessionOK_markUnauthenticated by (rule sessionOK_authenticate)
  have k4: "sessionOK c4" using s2 k3 by (rule sessionOK_send)
  from assms(1) a1 s1 a2 s2 have "c' = c1 \<or> c' = c2 \<or> c' = c3 \<or> c' = c4"
    by (auto simp: doRequest_def split: sum.splits if_splits prod.splits)
  with k1 k2 k3 k4 show ?thesis by blast
qed

text \<open>
  Claim C7. A call of \<^verbatim>\<open>authenticate\<close> on a session that is marked authenticated returns
  success at once and changes nothing: no token is fetched and no credentials are
  submitted. So after a successful call, a second call in a row (no invalidation in
  between) performs no exchange. The session flag is only ever set on a client that holds
  credentials (\<open>sessionOK\<close>, which \<open>New\<close> establishes and every step keeps).
\<close>

theorem authenticate_idempotent:
  "(sessionOK c \<and> authenticated c \<longrightarrow> authenticate env c = (Inr (), c))
   \<and> (authenticate env c = (Inr (), c1) \<longrightarrow>
        authenticate env c1 = (Inr (), c1) \<and> exchanges_of (since c1 (snd (authenticate env c1))) = [])"
proof -
  have a: "authenticate env c = (Inr (), c)" if "sessionOK c" "authenticated c" for c :: "'a client"
    using that by (simp add: authenticate_def sessionOK_def)
  have "authenticate env c1 = (Inr (), c1)" if h: "authenticate env c = (Inr (), c1)"
  proof -
    from authenticate_ok_flag [OF h] authenticate_config [OF h]
    have "authenticated c1" "username c1 \<noteq> []" "password c1 \<noteq> []"
      by (simp_all add: sameConfig_def)
    then show ?thesis by (simp add: authenticate_def)
  qed
  with a show ?thesis by simp
qed

theorem authenticate_idempotent_witness:
  "fst (authenticate scriptedEnv (sampleClient [] loginOK [])) = Inr ()
   \<and> sessionOK (snd (authenticate scriptedEnv (sampleClient [] loginOK [])))
   \<and> authenticated (snd (authenticate scriptedEnv (sampleClient [] loginOK [])))
   \<and> authenticate scriptedEnv (snd (authenticate scriptedEnv (sampleClient [] loginOK []))) =
       (Inr (), snd (authenticate scriptedEnv (sampleClient [] loginOK [])))
   \<and> length (exchanges_of (trace (snd (authenticate scriptedEnv (sampleClient [] loginOK []))))) = 2"
proof -
  let ?c = "sampleClient [] loginOK [] :: script client"
  let ?a = "authenticate scriptedEnv ?c"
  have f: "fst ?a = Inr ()" by code_simp
  then have e: "?a = (Inr (), snd ?a)" by (metis prod.collapse)
  have s: "sessionOK (snd ?a)" by code_simp
  have t: "authenticated (snd ?a)" by code_simp
  have n: "length (exchanges_of (trace (snd ?a))) = 2" by code_simp
  from authenticate_idempotent [of "snd ?a" scriptedEnv "snd ?a"] s t
  have "authenticate scriptedEnv (snd ?a) = (Inr (), snd ?a)" by simp
  with f s t n show ?thesis by simp
qed

subsection \<open>Reading an object\<close>

text \<open>
  Claim C4, as amended. \<^verbatim>\<open>Read\<close> answers an HTTP 404 and a 2xx response whose body decodes
  without error (a JSON object in which every number converts to a \<^verbatim>\<open>float64\<close>) and has
  \<^verbatim>\<open>deleted\<close> equal to \<^verbatim>\<open>true\<close> with the same value, a nil object and no error: the caller
  cannot tell an object that never existed from a soft-deleted one. A 2xx body that is an
  object but does not decode is the error "unmarshaling response", whatever its
  \<^verbatim>\<open>deleted\<close> member says.
\<close>

theorem read_absent_and_soft_deleted_alike:
  assumes "doRequest env c ''GET'' (configItemURL env c ws ty ident) None = (Inr (body, 404), c1)"
    and "doRequest env' c' ''GET'' (configItemURL env' c' ws' ty' ident') None = (Inr (body', status), c1')"
    and "\<not> non2xx status"
    and "jsonParse env' body' = Inr (JObject kvs)"
  shows "(fitsMembers env' kvs \<and> obj_get kvs ''deleted'' = Some (JBool True) \<longrightarrow>
            fst (Read env c ws ty ident) = Inr None
            \<and> fst (Read env' c' ws' ty' ident') = Inr None)
         \<and> (\<not> fitsMembers env' kvs \<longrightarrow>
            fst (Read env' c' ws' ty' ident') =
              Inl (Errorf ''unmarshaling response: %w'' [W unmarshalTypeError]))"
  using assms
  by (simp add: Read_def Let_def non2xx_def unmarshal_map_def as_map_def get_bool_def)

theorem read_absent_and_soft_deleted_alike_witness:
  "fst (doRequest scriptedEnv (sampleClient [] (loginOK @ [Response 404 ''gone'']) []) ''GET''
          (configItemURL scriptedEnv (sampleClient [] (loginOK @ [Response 404 ''gone'']) []) ''ws1'' ''stream'' ''s1'')
          None) = Inr (''gone'', 404)
   \<and> fst (doRequest scriptedEnv (sampleClient [] (loginOK @ [Response 200 deletedBody]) []) ''GET''
          (configItemURL scriptedEnv (sampleClient [] (loginOK @ [Response 200 deletedBody]) []) ''ws1'' ''stream'' ''s1'')
          None) = Inr (deletedBody, 200)
   \<and> jsonParse scriptedEnv deletedBody = Inr (JObject [(''id'', JString ''s1''), (''deleted'', JBool True)])
   \<and> fitsMembers scriptedEnv [(''id'', JString ''s1''), (''deleted'', JBool True)]
   \<and> fst (Read scriptedEnv (sampleClient [] (loginOK @ [Response 404 ''gone'']) []) ''ws1'' ''stream'' ''s1'') = Inr None
   \<and> fst (Read scriptedEnv (sampleClient [] (loginOK @ [Response 200 deletedBody]) []) ''ws1'' ''stream'' ''s1'') = Inr None"
proof -
  let ?c = "sampleClient [] (loginOK @ [Response 404 ''gone'']) [] :: script client"
  let ?c' = "sampleClient [] (loginOK @ [Response 200 deletedBody]) [] :: script client"
  let ?d = "doRequest scriptedEnv ?c ''GET'' (configItemURL scriptedEnv ?c ''ws1'' ''stream'' ''s1'') None"
  let ?d' = "doRequest scriptedEnv ?c' ''GET'' (configItemURL scriptedEnv ?c' ''ws1'' ''stream'' ''s1'') None"
  have f: "fst ?d = Inr (''gone'', 404)" by code_simp
  have f': "fst ?d' = Inr (deletedBody, 200)" by code_simp
  have e: "?d = (Inr (''gone'', 404), snd ?d)" using f by (metis prod.collapse)
  have e': "?d' = (Inr (deletedBody, 200), snd ?d')" using f' by (metis prod.collapse)
  have p: "jsonParse scriptedEnv deletedBody = Inr (JObject [(''id'', JString ''s1''), (''deleted'', JBool True)])"
    by code_simp
  have g: "obj_get [(''id'', JString ''s1''), (''deleted'', JBool True)] ''deleted'' = Some (JBool True)"
    by code_simp
  have k: "fitsMembers scriptedEnv [(''id'', JString ''s1''), (''deleted'', JBool True)]"
    by simp
  have n: "\<not> non2xx 200" by (simp add: non2xx_def)
  from read_absent_and_soft_deleted_alike [OF e e' n p, THEN conjunct1] k g
  have "fst (Read scriptedEnv ?c ''ws1'' ''stream'' ''s1'') = Inr None
        \<and> fst (Read scriptedEnv ?c' ''ws1'' ''stream'' ''s1'') = Inr None"
    by blast
  with f f' p k show ?thesis by simp
qed

text \<open>
  The claim as stated covers every 2xx body whose \<^verbatim>\<open>deleted\<close> member is \<^verbatim>\<open>true\<close>. This body has
  it, next to a number beyond \<^verbatim>\<open>float64\<close>: decoding the body fails, and \<^verbatim>\<open>Read\<close> returns
  an error where the 404 gives the nil object.
\<close>

theorem read_fails_on_undecodable_deleted_body:
  "fst (doRequest scriptedEnv (sampleClient [] (loginOK @ [Response 200 overflowDeletedBody]) []) ''GET''
          (configItemURL scriptedEnv (sampleClient [] (loginOK @ [Response 200 overflowDeletedBody]) [])
             ''ws1'' ''stream'' ''s1'') None) = Inr (overflowDeletedBody, 200)
   \<and> jsonParse scriptedEnv overflowDeletedBody =
       Inr (JObject [(''id'', JString ''s1''), (''deleted'', JBool True), (''rev'', JNumber ''1e400'')])
   \<and> obj_get [(''id'', JString ''s1''), (''deleted'', JBool True), (''rev'', JNumber ''1e400'')] ''deleted''
       = Some (JBool True)
   \<and> fst (Read scriptedEnv (sampleClient [] (loginOK @ [Response 404 ''gone'']) []) ''ws1'' ''stream'' ''s1'')
       = Inr None
   \<and> fst (Read scriptedEnv (sampleClient [] (loginOK @ [Response 200 overflowDeletedBody]) [])
            ''ws1'' ''stream'' ''s1'') =
       Inl (Errorf ''unmarshaling response: %w'' [W unmarshalTypeError])"
  by code_simp

subsection \<open>Deleting a workspace, deleting an object\<close>

text \<open>
  Claim C10. \<^verbatim>\<open>WorkspaceDelete\<close> returns no error when the DELETE request is answered with
  HTTP 404, whereas \<^verbatim>\<open>Delete\<close> of a configuration object turns every non-2xx status, 404
  included, into an error carrying the endpoint, the status and the body.
\<close>

theorem workspace_delete_tolerates_404:
  "(doRequest env c ''DELETE'' (workspaceURL c) (Some [(''workspaceId'', JString workspaceID)])
        = (Inr (body, 404), c1)
      \<longrightarrow> WorkspaceDelete env c workspaceID = (Inr (), c1))
   \<and> (doRequest env c ''DELETE'' (configItemURL env c ws ty ident) None = (Inr (body', status), c2)
        \<and> non2xx status
      \<longrightarrow> Delete env c ws ty ident =
            (Inl (Errorf ''DELETE %s returned %d: %s''
                    [S (configItemURL env c ws ty ident), D status, S body']), c2))
   \<and> non2xx 404"
  by (simp add: WorkspaceDelete_def Delete_def Let_def non2xx_def statusError_def)

theorem workspace_delete_tolerates_404_witness:
  "fst (doRequest scriptedEnv (sampleClient [] (loginOK @ [Response 404 ''gone'']) []) ''DELETE''
          (workspaceURL (sampleClient [] (loginOK @ [Response 404 ''gone'']) []))
          (Some [(''workspaceId'', JString ''ws1'')])) = Inr (''gone'', 404)
   \<and> fst (WorkspaceDelete scriptedEnv (sampleClient [] (loginOK @ [Response 404 ''gone'']) []) ''ws1'') = Inr ()
   \<and> fst (doRequest scriptedEnv (sampleClient [] (loginOK @ [Response 404 ''gone'']) []) ''DELETE''
          (configItemURL scriptedEnv (sampleClient [] (loginOK @ [Response 404 ''gone'']) []) ''ws1'' ''stream'' ''s1'')
          None) = Inr (''gone'', 404)
   \<and> fst (Delete scriptedEnv (sampleClient [] (loginOK @ [Response 404 ''gone'']) []) ''ws1'' ''stream'' ''s1'') =
       Inl (Errorf ''DELETE %s returned %d: %s''
              [S ''https://jitsu.example/api/ws1/config/stream/s1'', D 404, S ''gone''])"
proof -
  let ?c = "sampleClient [] (loginOK @ [Response 404 ''gone'']) [] :: script client"
  let ?d1 = "doRequest scriptedEnv ?c ''DELETE'' (workspaceURL ?c) (Some [(''workspaceId'', JString ''ws1'')])"
  let ?d2 = "doRequest scriptedEnv ?c ''DELETE'' (configItemURL scriptedEnv ?c ''ws1'' ''stream'' ''s1'') None"
  have f1: "fst ?d1 = Inr (''gone'', 404)" by code_simp
  have f2: "fst ?d2 = Inr (''gone'', 404)" by code_simp
  have u: "configItemURL scriptedEnv ?c ''ws1'' ''stream'' ''s1'' = ''https://jitsu.example/api/ws1/config/stream/s1''"
    by code_simp
  have e1: "?d1 = (Inr (''gone'', 404), snd ?d1)" using f1 by (metis prod.collapse)
  have e2: "?d2 = (Inr (''gone'', 404), snd ?d2)" using f2 by (metis prod.collapse)
  note t = workspace_delete_tolerates_404 [of scriptedEnv ?c "''ws1''" "''gone''" "snd ?d1"
      "''ws1''" "''stream''" "''s1''" "''gone''" 404 "snd ?d2"]
  from t e1 have a: "fst (WorkspaceDelete scriptedEnv ?c ''ws1'') = Inr ()" by simp
  from t e2 have b: "fst (Delete scriptedEnv ?c ''ws1'' ''stream'' ''s1'') =
       Inl (Errorf ''DELETE %s returned %d: %s''
              [S (configItemURL scriptedEnv ?c ''ws1'' ''stream'' ''s1''), D 404, S ''gone''])"
    by simp
  from f1 f2 a b u show ?thesis by simp
qed

subsection \<open>The purge: order and guard\<close>

lemma requiresDeleted_holds: "requiresDeleted w \<Longrightarrow> holds w a r \<Longrightarrow> deleted r"
  by (induction w) auto

lemma run_stmt_keeps_active:
  assumes "requiresDeleted (stmt_where st)" "r \<in> set (db t)" "\<not> deleted r"
  shows "r \<in> set (run_stmt st db t)"
proof (cases st)
  case (DeleteFrom t' w a)
  with assms requiresDeleted_holds [of w a r] show ?thesis by auto
qed

lemma fold_run_stmt_keeps_active:
  assumes "\<forall>st \<in> set sts. requiresDeleted (stmt_where st)" "r \<in> set (db t)" "\<not> deleted r"
  shows "r \<in> set (fold run_stmt sts db t)"
  using assms
proof (induction sts arbitrary: db)
  case Nil
  then show ?case by simp
next
  case (Cons st sts)
  from Cons.prems have "r \<in> set (run_stmt st db t)"
    by (intro run_stmt_keeps_active) simp_all
  with Cons show ?case by simp
qed

lemma getDB_frame:
  "getDB env c = (r, c') \<Longrightarrow> trace c' = trace c \<and> world c' = world c"
  by (auto simp: getDB_def Let_def split: if_splits option.splits)

lemma exec_sql_eq:
  "exec_sql env st c = (fst (sqlExec env st (world c)), emit (SqlExec st) (c\<lparr>world := snd (sqlExec env st (world c))\<rparr>))"
  by (simp add: exec_sql_def split: prod.splits)

lemma purgeStatements_object:
  "purgeStatements env c ident ''ConfigurationObject'' =
     (case fst (getDB env c) of
        Inl e \<Rightarrow> []
      | Inr u \<Rightarrow>
          (case fst (sqlExec env (deleteLinksStmt ident) (world c)) of
             Some e \<Rightarrow> [deleteLinksStmt ident]
           | None \<Rightarrow> [deleteLinksStmt ident, deleteRowStmt ''ConfigurationObject'' ident]))"
proof -
  obtain r c1 where g: "getDB env c = (r, c1)" by (cases "getDB env c") auto
  from getDB_frame [OF g] have f: "trace c1 = trace c" "world c1 = world c" by simp_all
  show ?thesis
    using g f
    by (auto simp: purgeStatements_def hardDeleteSoftDeleted_def since_def exec_sql_eq emit_def Let_def
             split: sum.splits option.splits prod.splits)
qed

lemma purge_result_object:
  assumes "fst (hardDeleteSoftDeleted env c ident ''ConfigurationObject'') = Inr u"
  shows "purgeStatements env c ident ''ConfigurationObject'' =
           [deleteLinksStmt ident, deleteRowStmt ''ConfigurationObject'' ident]"
proof -
  obtain r c1 where g: "getDB env c = (r, c1)" by (cases "getDB env c") auto
  from getDB_frame [OF g] have f: "trace c1 = trace c" "world c1 = world c" by simp_all
  show ?thesis
    using g f assms
    by (auto simp: purgeStatements_def hardDeleteSoftDeleted_def since_def exec_sql_eq emit_def Let_def
             split: sum.splits option.splits prod.splits)
qed

text \<open>
  Claim C2. A purge for the object table sends the delete of the soft-deleted links that
  reference the id (as \<^verbatim>\<open>fromId\<close> or \<^verbatim>\<open>toId\<close>) first, and the delete of the object row only
  after that statement has succeeded; a purge that returns without error has sent exactly
  these two, in this order. Every statement of a purge (for any table) has
  \<^verbatim>\<open>deleted = true\<close> as a conjunct of its predicate, so on any database every row that is
  not soft-deleted is still there after the statements have run.
\<close>

theorem purge_object_links_first:
  "purgeStatements env c ident ''ConfigurationObject'' =
     (case fst (getDB env c) of
        Inl e \<Rightarrow> []
      | Inr u \<Rightarrow>
          (case fst (sqlExec env (deleteLinksStmt ident) (world c)) of
             Some e \<Rightarrow> [deleteLinksStmt ident]
           | None \<Rightarrow> [deleteLinksStmt ident, deleteRowStmt ''ConfigurationObject'' ident]))
   \<and> (fst (hardDeleteSoftDeleted env c ident ''ConfigurationObject'') = Inr () \<longrightarrow>
        purgeStatements env c ident ''ConfigurationObject'' =
          [deleteLinksStmt ident, deleteRowStmt ''ConfigurationObject'' ident])
   \<and> run_stmt (deleteLinksStmt ident) db ''ConfigurationObjectLink'' =
        filter (\<lambda>r. \<not> (deleted r \<and> (map_of (cols r) ''fromId'' = Some ident
                                      \<or> map_of (cols r) ''toId'' = Some ident)))
          (db ''ConfigurationObjectLink'')
   \<and> run_stmt (deleteRowStmt ''ConfigurationObject'' ident) db ''ConfigurationObject'' =
        filter (\<lambda>r. \<not> (map_of (cols r) ''id'' = Some ident \<and> deleted r)) (db ''ConfigurationObject'')
   \<and> (\<forall>st \<in> set (purgeStatements env c ident table). requiresDeleted (stmt_where st))
   \<and> (\<forall>t r. r \<in> set (db t) \<and> \<not> deleted r \<longrightarrow>
          r \<in> set (fold run_stmt (purgeStatements env c ident table) db t))"
proof -
  have guard: "\<forall>st \<in> set (purgeStatements env c ident table). requiresDeleted (stmt_where st)"
  proof -
    obtain r c1 where g: "getDB env c = (r, c1)" by (cases "getDB env c") auto
    from getDB_frame [OF g] have f: "trace c1 = trace c" "world c1 = world c" by simp_all
    show ?thesis
      using g f
      by (auto simp: purgeStatements_def hardDeleteSoftDeleted_def since_def exec_sql_eq emit_def Let_def
                 deleteLinksStmt_def deleteRowStmt_def
               split: sum.splits option.splits prod.splits if_splits)
  qed
  from guard have keep: "\<forall>t r. r \<in> set (db t) \<and> \<not> deleted r \<longrightarrow>
          r \<in> set (fold run_stmt (purgeStatements env c ident table) db t)"
    by (blast intro: fold_run_stmt_keeps_active)
  have sem: "run_stmt (deleteLinksStmt ident) db ''ConfigurationObjectLink'' =
        filter (\<lambda>r. \<not> (deleted r \<and> (map_of (cols r) ''fromId'' = Some ident
                                      \<or> map_of (cols r) ''toId'' = Some ident)))
          (db ''ConfigurationObjectLink'')"
     "run_stmt (deleteRowStmt ''ConfigurationObject'' ident) db ''ConfigurationObject'' =
        filter (\<lambda>r. \<not> (map_of (cols r) ''id'' = Some ident \<and> deleted r)) (db ''ConfigurationObject'')"
    by (simp_all add: deleteLinksStmt_def deleteRowStmt_def)
  from purgeStatements_object [of env c ident] purge_result_object [of env c ident "()"] guard keep sem
  show ?thesis by blast
qed

theorem purge_object_links_first_witness:
  "fst (hardDeleteSoftDeleted scriptedEnv (sampleClient ''postgres://console'' [] [None, None]) ''s1''
          ''ConfigurationObject'') = Inr ()
   \<and> purgeStatements scriptedEnv (sampleClient ''postgres://console'' [] [None, None]) ''s1''
          ''ConfigurationObject'' =
        [deleteLinksStmt ''s1'', deleteRowStmt ''ConfigurationObject'' ''s1'']
   \<and> \<lparr> cols = [(''id'', ''s2'')], deleted = False \<rparr> \<in> set (sampleDB ''ConfigurationObject'')
   \<and> \<lparr> cols = [(''id'', ''s2'')], deleted = False \<rparr> \<in>
        set (fold run_stmt
               (purgeStatements scriptedEnv (sampleClient ''postgres://console'' [] [None, None]) ''s1''
                  ''ConfigurationObject'') sampleDB ''ConfigurationObject'')
   \<and> fold run_stmt [deleteLinksStmt ''s1'', deleteRowStmt ''ConfigurationObject'' ''s1''] sampleDB
         ''ConfigurationObjectLink'' =
        [\<lparr> cols = [(''id'', ''l2''), (''fromId'', ''s2''), (''toId'', ''s1'')], deleted = False \<rparr>]"
proof -
  let ?c = "sampleClient ''postgres://console'' [] [None, None] :: script client"
  let ?r = "\<lparr> cols = [(''id'', ''s2'')], deleted = False \<rparr>"
  have ok: "fst (hardDeleteSoftDeleted scriptedEnv ?c ''s1'' ''ConfigurationObject'') = Inr ()"
    by code_simp
  have mem: "?r \<in> set (sampleDB ''ConfigurationObject'')" by (simp add: sampleDB_def)
  have act: "\<not> deleted ?r" by simp
  have run: "fold run_stmt [deleteLinksStmt ''s1'', deleteRowStmt ''ConfigurationObject'' ''s1''] sampleDB
         ''ConfigurationObjectLink'' =
        [\<lparr> cols = [(''id'', ''l2''), (''fromId'', ''s2''), (''toId'', ''s1'')], deleted = False \<rparr>]"
    by (simp add: sampleDB_def deleteLinksStmt_def deleteRowStmt_def)
  note t = purge_object_links_first [of scriptedEnv ?c "''s1''" sampleDB "''ConfigurationObject''"]
  from t ok have st: "purgeStatements scriptedEnv ?c ''s1'' ''ConfigurationObject'' =
        [deleteLinksStmt ''s1'', deleteRowStmt ''ConfigurationObject'' ''s1'']"
    by blast
  from t mem act have "?r \<in> set (fold run_stmt (purgeStatements scriptedEnv ?c ''s1'' ''ConfigurationObject'')
      sampleDB ''ConfigurationObject'')"
    by blast
  with ok st mem run show ?thesis by simp
qed

subsection \<open>The request executor: one retry after an authentication failure\<close>

lemma send_ok_builds:
  "send env c m u b = (Inr p, c') \<Longrightarrow> requestBuilds env m u b"
  by (auto simp: send_def requestBuilds_def split: option.splits sum.splits)

lemma send_trace:
  assumes "requestBuilds env m u b" "send env c m u b = (r, c')"
  shows "logs_of (since c c') =
           logRequest m u # (case r of Inr (body, st) \<Rightarrow> [logResponse m u st] | Inl e \<Rightarrow> [])
         \<and> stmts_of (since c c') = []
         \<and> (\<exists>d. trace c' = trace c @ d)"
  using assms
  by (auto simp: send_def requestBuilds_def since_def do_http_def emit_def logRequest_def logResponse_def
           split: option.splits sum.splits prod.splits http_result.splits)

lemma authenticate_trace:
  assumes "authenticate env c = (r, c')"
  shows "logs_of (since c c') = [] \<and> stmts_of (since c c') = [] \<and> (\<exists>d. trace c' = trace c @ d)"
  using authenticate_step [OF assms] by (auto simp: authStep_def since_def)

lemma since_trans:
  assumes "\<exists>d. trace b = trace a @ d" "\<exists>d. trace c = trace b @ d"
  shows "since a c = since a b @ since b c"
  using assms by (auto simp: since_def)

lemma since_emit: "since c (emit e c') = drop (length (trace c)) (trace c' @ [e])"
  by (simp add: since_def)

text \<open>
  Claim C3, as amended. When the first response of \<^verbatim>\<open>doRequest\<close> has status 401 or 403, the
  session is invalidated once (the warning is logged once, the flag is cleared) and
  \<^verbatim>\<open>authenticate\<close> runs once more. If it succeeds, the same request is sent one more time
  and whatever that second \<^verbatim>\<open>send\<close> gives, a second 401 or 403 included, is the result: the
  log shows two requests and no third. If it fails, its error is returned wrapped and the
  request is not sent again. With any other first status the response is returned as it
  is after a single request.
\<close>

theorem doRequest_retries_once_after_auth_failure:
  assumes "authenticate env c = (Inr (), c1)"
    and "send env c1 method url body = (Inr (respBody, status), c2)"
  shows
   "(isAuthFailureStatus status \<longrightarrow>
       \<not> authenticated (markUnauthenticated (emit (logAuthRetry method url status) c2))
       \<and> (case authenticate env (markUnauthenticated (emit (logAuthRetry method url status) c2)) of
            (Inl err, c3) \<Rightarrow>
               doRequest env c method url body =
                 (Inl (Errorf ''re-authenticating after %d response: %w'' [D status, W err]), c3)
               \<and> logs_of (since c c3) =
                   [logRequest method url, logResponse method url status, logAuthRetry method url status]
          | (Inr u, c3) \<Rightarrow>
               doRequest env c method url body = send env c3 method url body
               \<and> logs_of (since c (snd (send env c3 method url body))) =
                   [logRequest method url, logResponse method url status, logAuthRetry method url status,
                    logRequest method url]
                   @ (case fst (send env c3 method url body) of
                        Inr (body2, status2) \<Rightarrow> [logResponse method url status2]
                      | Inl e \<Rightarrow> [])))
    \<and> (\<not> isAuthFailureStatus status \<longrightarrow>
         doRequest env c method url body = (Inr (respBody, status), c2)
         \<and> logs_of (since c c2) = [logRequest method url, logResponse method url status])"
proof -
  let ?c2 = "markUnauthenticated (emit (logAuthRetry method url status) c2)"
  obtain r3 c3 where a2: "authenticate env ?c2 = (r3, c3)" by (cases "authenticate env ?c2") auto
  obtain r4 c4 where s2: "send env c3 method url body = (r4, c4)" by (cases "send env c3 method url body") auto
  have b: "requestBuilds env method url body" using assms(2) by (rule send_ok_builds)
  note t1 = authenticate_trace [OF assms(1)]
  note t2 = send_trace [OF b assms(2)]
  note t3 = authenticate_trace [OF a2]
  note t4 = send_trace [OF b s2]
  have e12: "\<exists>d. trace c2 = trace c @ d" using t1 t2 by auto
  have l2: "logs_of (since c c2) = [logRequest method url, logResponse method url status]"
    using since_trans [where a=c and b=c1 and c=c2] t1 t2 by simp
  have tr2: "trace ?c2 = trace c2 @ [logAuthRetry method url status]"
    by (simp add: markUnauthenticated_def)
  have e2: "\<exists>d. trace ?c2 = trace c @ d" using e12 tr2 by auto
  have l2': "logs_of (since c ?c2) =
      [logRequest method url, logResponse method url status, logAuthRetry method url status]"
    using e12 l2 tr2 by (auto simp: since_def logAuthRetry_def)
  have e3: "\<exists>d. trace c3 = trace c @ d" using e2 t3 by auto
  have l3: "logs_of (since c c3) =
      [logRequest method url, logResponse method url status, logAuthRetry method url status]"
    using since_trans [where a=c and b="?c2" and c=c3] e2 t3 l2' by simp
  have l4: "logs_of (since c c4) =
      [logRequest method url, logResponse method url status, logAuthRetry method url status, logRequest method url]
      @ (case r4 of Inr (body2, status2) \<Rightarrow> [logResponse method url status2] | Inl e \<Rightarrow> [])"
    using since_trans [where a=c and b=c3 and c=c4] e3 t4 l3 by simp
  have flag: "\<not> authenticated ?c2" by (simp add: markUnauthenticated_def)
  have no: "\<not> isAuthFailureStatus status \<Longrightarrow> doRequest env c method url body = (Inr (respBody, status), c2)"
    using assms by (simp add: doRequest_def)
  have yes: "isAuthFailureStatus status \<Longrightarrow> doRequest env c method url body =
      (case r3 of Inl err \<Rightarrow> (Inl (Errorf ''re-authenticating after %d response: %w'' [D status, W err]), c3)
       | Inr u \<Rightarrow> (r4, c4))"
    using assms a2 s2 by (auto simp: doRequest_def split: sum.splits prod.splits)
  show ?thesis
    using no yes l2 l3 l4 flag a2 s2 by (auto split: sum.splits)
qed

theorem doRequest_retries_once_after_auth_failure_witness:
  "fst (authenticate scriptedEnv (sampleClient [] retryScript [])) = Inr ()
   \<and> fst (send scriptedEnv (snd (authenticate scriptedEnv (sampleClient [] retryScript []))) ''GET'' sampleURL None)
       = Inr (''unauthorized'', 401)
   \<and> isAuthFailureStatus 401
   \<and> fst (doRequest scriptedEnv (sampleClient [] retryScript []) ''GET'' sampleURL None) = Inr (''{}'', 200)
   \<and> logs_of (trace (snd (doRequest scriptedEnv (sampleClient [] retryScript []) ''GET'' sampleURL None))) =
       [logRequest ''GET'' sampleURL, logResponse ''GET'' sampleURL 401, logAuthRetry ''GET'' sampleURL 401,
        logRequest ''GET'' sampleURL, logResponse ''GET'' sampleURL 200]
   \<and> \<not> isAuthFailureStatus 503
   \<and> doRequest scriptedEnv (sampleClient [] (loginOK @ [Response 503 ''busy'']) []) ''GET'' sampleURL None =
       (Inr (''busy'', 503),
        snd (send scriptedEnv (snd (authenticate scriptedEnv (sampleClient [] (loginOK @ [Response 503 ''busy'']) [])))
               ''GET'' sampleURL None))"
proof -
  let ?c = "sampleClient [] retryScript [] :: script client"
  let ?a = "authenticate scriptedEnv ?c"
  let ?s = "send scriptedEnv (snd ?a) ''GET'' sampleURL None"
  let ?a2 = "authenticate scriptedEnv (markUnauthenticated (emit (logAuthRetry ''GET'' sampleURL 401) (snd ?s)))"
  let ?s2 = "send scriptedEnv (snd ?a2) ''GET'' sampleURL None"
  have fa: "fst ?a = Inr ()" by code_simp
  have fs: "fst ?s = Inr (''unauthorized'', 401)" by code_simp
  have fa2: "fst ?a2 = Inr ()" by code_simp
  have fs2: "fst ?s2 = Inr (''{}'', 200)" by code_simp
  have i: "isAuthFailureStatus 401" by (simp add: isAuthFailureStatus_def)
  have tr: "trace ?c = []" by (simp add: sampleClient_def New_def)
  obtain c1 where ha: "?a = (Inr (), c1)" using fa by (metis prod.collapse)
  obtain c2 where hs: "send scriptedEnv c1 ''GET'' sampleURL None = (Inr (''unauthorized'', 401), c2)"
    using fs ha by (metis prod.collapse snd_conv)
  obtain c3 where ha2: "authenticate scriptedEnv (markUnauthenticated (emit (logAuthRetry ''GET'' sampleURL 401) c2))
      = (Inr (), c3)"
    using fa2 ha hs by (metis prod.collapse snd_conv)
  have hs2: "fst (send scriptedEnv c3 ''GET'' sampleURL None) = Inr (''{}'', 200)"
    using fs2 ha hs ha2 by simp
  note t = doRequest_retries_once_after_auth_failure [OF ha hs, THEN conjunct1, THEN mp, OF i, THEN conjunct2]
  from t have r: "doRequest scriptedEnv ?c ''GET'' sampleURL None = send scriptedEnv c3 ''GET'' sampleURL None"
    and l: "logs_of (since ?c (snd (send scriptedEnv c3 ''GET'' sampleURL None))) =
              [logRequest ''GET'' sampleURL, logResponse ''GET'' sampleURL 401, logAuthRetry ''GET'' sampleURL 401,
               logRequest ''GET'' sampleURL]
              @ (case fst (send scriptedEnv c3 ''GET'' sampleURL None) of
                   Inr (body2, status2) \<Rightarrow> [logResponse ''GET'' sampleURL status2]
                 | Inl e \<Rightarrow> [])"
    by (simp_all add: ha2)
  have part1: "fst (doRequest scriptedEnv ?c ''GET'' sampleURL None) = Inr (''{}'', 200)"
    using r hs2 by simp
  have part2: "logs_of (trace (snd (doRequest scriptedEnv ?c ''GET'' sampleURL None))) =
       [logRequest ''GET'' sampleURL, logResponse ''GET'' sampleURL 401, logAuthRetry ''GET'' sampleURL 401,
        logRequest ''GET'' sampleURL, logResponse ''GET'' sampleURL 200]"
    using l hs2 r tr by (simp add: since_def)
  let ?k = "sampleClient [] (loginOK @ [Response 503 ''busy'']) [] :: script client"
  let ?ka = "authenticate scriptedEnv ?k"
  let ?ks = "send scriptedEnv (snd ?ka) ''GET'' sampleURL None"
  have fka: "fst ?ka = Inr ()" by code_simp
  have fks: "fst ?ks = Inr (''busy'', 503)" by code_simp
  have hka: "?ka = (Inr (), snd ?ka)" using fka by (metis prod.collapse)
  have hks: "?ks = (Inr (''busy'', 503), snd ?ks)" using fks by (metis prod.collapse)
  have n: "\<not> isAuthFailureStatus 503" by (simp add: isAuthFailureStatus_def)
  note t' = doRequest_retries_once_after_auth_failure [OF hka hks, THEN conjunct2, THEN mp, OF n, THEN conjunct1]
  from fa fs i part1 part2 n t' show ?thesis by (intro conjI)
qed

text \<open>
  The claim as stated promises the re-send after every first 401 or 403. Here the server
  answers the request with 401 and the token request of the new login with 500: the
  request has gone out once, and the caller gets the re-authentication error.
\<close>

theorem doRequest_no_resend_when_reauth_fails:
  "fst (authenticate scriptedEnv (sampleClient [] reauthFailScript [])) = Inr ()
   \<and> fst (send scriptedEnv (snd (authenticate scriptedEnv (sampleClient [] reauthFailScript []))) ''GET'' sampleURL None)
       = Inr (''unauthorized'', 401)
   \<and> fst (doRequest scriptedEnv (sampleClient [] reauthFailScript []) ''GET'' sampleURL None) =
       Inl (Errorf ''re-authenticating after %d response: %w''
              [D 401, W (Errorf ''GET %s returned %d: %s''
                           [S ''https://jitsu.example/api/auth/csrf'', D 500, S ''down''])])
   \<and> logs_of (trace (snd (doRequest scriptedEnv (sampleClient [] reauthFailScript []) ''GET'' sampleURL None))) =
       [logRequest ''GET'' sampleURL, logResponse ''GET'' sampleURL 401, logAuthRetry ''GET'' sampleURL 401]
   \<and> length (filter (\<lambda>rq. req_url rq = sampleURL)
        (exchanges_of (trace (snd (doRequest scriptedEnv (sampleClient [] reauthFailScript []) ''GET'' sampleURL None)))))
       = 1"
  by code_simp

subsection \<open>Create: purge and one retry\<close>

lemma send_frame:
  assumes "send env c m u b = (r, c')"
  shows "stmts_of (since c c') = [] \<and> (\<exists>d. trace c' = trace c @ d)"
  using assms
  by (auto simp: send_def since_def do_http_def emit_def logRequest_def logResponse_def
           split: option.splits sum.splits prod.splits http_result.splits)

lemma doRequest_frame:
  assumes "doRequest env c m u b = (r, c')"
  shows "stmts_of (since c c') = [] \<and> (\<exists>d. trace c' = trace c @ d)"
proof -
  obtain r1 c1 where a1: "authenticate env c = (r1, c1)" by (cases "authenticate env c") auto
  obtain r2 c2 where s1: "send env c1 m u b = (r2, c2)" by (cases "send env c1 m u b") auto
  let ?c2 = "markUnauthenticated (emit (logAuthRetry m u (snd (projr r2))) c2)"
  obtain r3 c3 where a2: "authenticate env ?c2 = (r3, c3)" by (cases "authenticate env ?c2") auto
  obtain r4 c4 where s2: "send env c3 m u b = (r4, c4)" by (cases "send env c3 m u b") auto
  note t1 = authenticate_trace [OF a1] and t2 = send_frame [OF s1]
    and t3 = authenticate_trace [OF a2] and t4 = send_frame [OF s2]
  have k1: "stmts_of (since c c1) = [] \<and> (\<exists>d. trace c1 = trace c @ d)" using t1 by simp
  have k2: "stmts_of (since c c2) = [] \<and> (\<exists>d. trace c2 = trace c @ d)"
    using since_trans [where a=c and b=c1 and c=c2] k1 t2 by auto
  have k2': "stmts_of (since c ?c2) = [] \<and> (\<exists>d. trace ?c2 = trace c @ d)"
    using k2 by (auto simp: since_def markUnauthenticated_def logAuthRetry_def)
  have k3: "stmts_of (since c c3) = [] \<and> (\<exists>d. trace c3 = trace c @ d)"
    using since_trans [where a=c and b="?c2" and c=c3] k2' t3 by auto
  have k4: "stmts_of (since c c4) = [] \<and> (\<exists>d. trace c4 = trace c @ d)"
    using since_trans [where a=c and b=c3 and c=c4] k3 t4 by auto
  from assms a1 s1 a2 s2 have "c' = c1 \<or> c' = c2 \<or> c' = c3 \<or> c' = c4"
    by (auto simp: doRequest_def split: sum.splits if_splits prod.splits)
  with k1 k2 k3 k4 show ?thesis by blast
qed

lemma purge_frame:
  assumes "hardDeleteSoftDeleted env c ident table = (r, c')"
  shows "\<exists>d. trace c' = trace c @ d"
proof -
  obtain r1 c1 where g: "getDB env c = (r1, c1)" by (cases "getDB env c") auto
  from getDB_frame [OF g] have f: "trace c1 = trace c" by simp
  show ?thesis
    using g f assms
    by (auto simp: hardDeleteSoftDeleted_def exec_sql_eq emit_def Let_def
             split: sum.splits option.splits prod.splits if_splits)
qed

text \<open>
  Claim C1, as amended. When the first POST of \<^verbatim>\<open>Create\<close> comes back with status 500 and a
  body containing "Unique constraint failed", and the payload holds a non-empty string
  \<^verbatim>\<open>id\<close>, the purge is invoked once for that id and the table of the type (\<^verbatim>\<open>link\<close> to
  \<^verbatim>\<open>ConfigurationObjectLink\<close>, every other type to \<^verbatim>\<open>ConfigurationObject\<close>). If the purge
  succeeds the POST is sent through \<^verbatim>\<open>doRequest\<close> one more time and its outcome is final: a
  non-2xx status, a second conflict included, is the status error, with no second purge
  (the statements sent during the whole call are those of the one purge). If the purge
  fails, or the payload has no such id, \<^verbatim>\<open>Create\<close> fails without sending the POST again.
  Any other non-2xx first response is the error carrying method, URL, status and body.
\<close>

theorem create_purges_and_retries_once:
  assumes "doRequest env c ''POST'' (configURL env c ws ty) (Some payload) = (Inr (body, status), c1)"
  shows
   "(isSoftDeleteConflict status body \<and> get_string (Some payload) ''id'' = Some ident \<and> ident \<noteq> [] \<longrightarrow>
       (case hardDeleteSoftDeleted env c1 ident (tableFor ty) of
          (Inl err, c2) \<Rightarrow>
             Create env c ws ty payload =
               (Inl (Errorf ''POST failed (soft-delete conflict) and cleanup failed: %w'' [W err]), c2)
        | (Inr u, c2) \<Rightarrow>
             (case doRequest env c2 ''POST'' (configURL env c ws ty) (Some payload) of
                (Inl err, c3) \<Rightarrow> Create env c ws ty payload = (Inl err, c3)
              | (Inr (body2, status2), c3) \<Rightarrow>
                  Create env c ws ty payload =
                    (if non2xx status2
                     then Inl (Errorf ''POST %s returned %d: %s'' [S (configURL env c ws ty), D status2, S body2])
                     else (case unmarshal_map env body2 of
                             Inl err \<Rightarrow> Inl (Errorf ''unmarshaling response: %w'' [W err])
                           | Inr result \<Rightarrow> Inr result), c3)))
       \<and> stmts_of (since c (snd (Create env c ws ty payload))) = purgeStatements env c1 ident (tableFor ty))
    \<and> (isSoftDeleteConflict status body
          \<and> (get_string (Some payload) ''id'' = None \<or> get_string (Some payload) ''id'' = Some []) \<longrightarrow>
        Create env c ws ty payload =
          (Inl (Errorf ''POST %s returned soft-delete conflict but payload has no 'id' field''
                  [S (configURL env c ws ty)]), c1))
    \<and> (\<not> isSoftDeleteConflict status body \<and> non2xx status \<longrightarrow>
        Create env c ws ty payload =
          (Inl (Errorf ''POST %s returned %d: %s'' [S (configURL env c ws ty), D status, S body]), c1))
    \<and> tableFor ''link'' = ''ConfigurationObjectLink''
    \<and> (ty \<noteq> ''link'' \<longrightarrow> tableFor ty = ''ConfigurationObject'')"
proof -
  let ?ep = "configURL env c ws ty"
  obtain r2 c2 where p: "hardDeleteSoftDeleted env c1 ident (tableFor ty) = (r2, c2)"
    by (cases "hardDeleteSoftDeleted env c1 ident (tableFor ty)") auto
  obtain r3 c3 where d2: "doRequest env c2 ''POST'' ?ep (Some payload) = (r3, c3)"
    by (cases "doRequest env c2 ''POST'' ?ep (Some payload)") auto
  note f1 = doRequest_frame [OF assms] and f2 = purge_frame [OF p] and f3 = doRequest_frame [OF d2]
  have ps: "purgeStatements env c1 ident (tableFor ty) = stmts_of (since c1 c2)"
    using p by (simp add: purgeStatements_def)
  have s2: "stmts_of (since c c2) = stmts_of (since c1 c2)"
    using since_trans [where a=c and b=c1 and c=c2] f1 f2 by simp
  have e2: "\<exists>d. trace c2 = trace c @ d" using f1 f2 by auto
  have s3: "stmts_of (since c c3) = stmts_of (since c1 c2)"
    using since_trans [where a=c and b=c2 and c=c3] e2 f3 s2 by simp
  have fin: "isSoftDeleteConflict status body \<Longrightarrow> get_string (Some payload) ''id'' = Some ident \<Longrightarrow> ident \<noteq> [] \<Longrightarrow>
      snd (Create env c ws ty payload) = (case r2 of Inl e \<Rightarrow> c2 | Inr u \<Rightarrow> c3)"
    using assms p d2 by (auto simp: Create_def Let_def split: sum.splits prod.splits)
  have tr: "isSoftDeleteConflict status body \<Longrightarrow> get_string (Some payload) ''id'' = Some ident \<Longrightarrow> ident \<noteq> [] \<Longrightarrow>
      stmts_of (since c (snd (Create env c ws ty payload))) = purgeStatements env c1 ident (tableFor ty)"
    using fin ps s2 s3 by (cases r2) simp_all
  have eq: "isSoftDeleteConflict status body \<Longrightarrow> get_string (Some payload) ''id'' = Some ident \<Longrightarrow> ident \<noteq> [] \<Longrightarrow>
       (case hardDeleteSoftDeleted env c1 ident (tableFor ty) of
          (Inl err, c2) \<Rightarrow>
             Create env c ws ty payload =
               (Inl (Errorf ''POST failed (soft-delete conflict) and cleanup failed: %w'' [W err]), c2)
        | (Inr u, c2) \<Rightarrow>
             (case doRequest env c2 ''POST'' (configURL env c ws ty) (Some payload) of
                (Inl err, c3) \<Rightarrow> Create env c ws ty payload = (Inl err, c3)
              | (Inr (body2, status2), c3) \<Rightarrow>
                  Create env c ws ty payload =
                    (if non2xx status2
                     then Inl (Errorf ''POST %s returned %d: %s'' [S (configURL env c ws ty), D status2, S body2])
                     else (case unmarshal_map env body2 of
                             Inl err \<Rightarrow> Inl (Errorf ''unmarshaling response: %w'' [W err])
                           | Inr result \<Rightarrow> Inr result), c3)))"
    using assms
    by (auto simp: Create_def Let_def decodeResult_def statusError_def split: sum.splits prod.splits)
  have noid: "isSoftDeleteConflict status body \<Longrightarrow>
      get_string (Some payload) ''id'' = None \<or> get_string (Some payload) ''id'' = Some [] \<Longrightarrow>
        Create env c ws ty payload =
          (Inl (Errorf ''POST %s returned soft-delete conflict but payload has no 'id' field''
                  [S (configURL env c ws ty)]), c1)"
    using assms by (auto simp: Create_def Let_def)
  have other: "\<not> isSoftDeleteConflict status body \<Longrightarrow> non2xx status \<Longrightarrow>
        Create env c ws ty payload =
          (Inl (Errorf ''POST %s returned %d: %s'' [S (configURL env c ws ty), D status, S body]), c1)"
    using assms by (simp add: Create_def Let_def decodeResult_def statusError_def)
  have tab: "tableFor ''link'' = ''ConfigurationObjectLink''" "ty \<noteq> ''link'' \<Longrightarrow> tableFor ty = ''ConfigurationObject''"
    by (simp_all add: tableFor_def)
  show ?thesis
  proof (intro conjI impI, goal_cases)
    case 1
    then show ?case by (intro eq) simp_all
  next
    case 2
    then show ?case by (intro tr) simp_all
  next
    case 3
    then show ?case by (intro noid) simp_all
  next
    case 4
    then show ?case by (intro other) simp_all
  next
    case 5
    show ?case by (rule tab)
  next
    case 6
    then show ?case by (rule tab)
  qed
qed

theorem create_purges_and_retries_once_witness:
  "fst (doRequest scriptedEnv (sampleClient ''postgres://console'' recreateScript [None, None]) ''POST''
          ''https://jitsu.example/api/ws1/config/stream'' (Some samplePayload))
      = Inr (''Unique constraint failed on the fields: (id)'', 500)
   \<and> isSoftDeleteConflict 500 ''Unique constraint failed on the fields: (id)''
   \<and> get_string (Some samplePayload) ''id'' = Some ''s1''
   \<and> fst (Create scriptedEnv (sampleClient ''postgres://console'' recreateScript [None, None]) ''ws1'' ''stream''
            samplePayload) = Inr (Some [(''id'', JString ''s1'')])
   \<and> stmts_of (trace (snd (Create scriptedEnv (sampleClient ''postgres://console'' recreateScript [None, None])
                             ''ws1'' ''stream'' samplePayload))) =
       [deleteLinksStmt ''s1'', deleteRowStmt ''ConfigurationObject'' ''s1'']
   \<and> sentTo ''POST'' ''https://jitsu.example/api/ws1/config/stream''
        (trace (snd (Create scriptedEnv (sampleClient ''postgres://console'' recreateScript [None, None])
                       ''ws1'' ''stream'' samplePayload))) = 2
   \<and> \<not> isSoftDeleteConflict 400 ''bad request'' \<and> non2xx 400
   \<and> fst (Create scriptedEnv (sampleClient [] (loginOK @ [Response 400 ''bad request'']) []) ''ws1'' ''stream''
            samplePayload) =
       Inl (Errorf ''POST %s returned %d: %s''
              [S ''https://jitsu.example/api/ws1/config/stream'', D 400, S ''bad request''])"
proof -
  let ?c = "sampleClient ''postgres://console'' recreateScript [None, None] :: script client"
  let ?u = "''https://jitsu.example/api/ws1/config/stream''"
  let ?b = "''Unique constraint failed on the fields: (id)''"
  let ?d = "doRequest scriptedEnv ?c ''POST'' ?u (Some samplePayload)"
  have u: "configURL scriptedEnv ?c ''ws1'' ''stream'' = ?u" by code_simp
  have fd: "fst ?d = Inr (?b, 500)" by code_simp
  have k: "isSoftDeleteConflict 500 ?b" by code_simp
  have g: "get_string (Some samplePayload) ''id'' = Some ''s1''" by code_simp
  have v: "fst (Create scriptedEnv ?c ''ws1'' ''stream'' samplePayload) = Inr (Some [(''id'', JString ''s1'')])"
    by code_simp
  have n: "sentTo ''POST'' ?u (trace (snd (Create scriptedEnv ?c ''ws1'' ''stream'' samplePayload))) = 2"
    by code_simp
  have ps: "purgeStatements scriptedEnv (snd ?d) ''s1'' (tableFor ''stream'') =
              [deleteLinksStmt ''s1'', deleteRowStmt ''ConfigurationObject'' ''s1'']"
    by code_simp
  have tr: "trace ?c = []" by (simp add: sampleClient_def New_def)
  obtain c1 where h: "doRequest scriptedEnv ?c ''POST'' (configURL scriptedEnv ?c ''ws1'' ''stream'')
      (Some samplePayload) = (Inr (?b, 500), c1)"
    using fd u by (metis prod.collapse)
  then have c1: "snd ?d = c1" using u by simp
  have "''s1'' \<noteq> ([] :: string)" by simp
  with create_purges_and_retries_once [OF h, of "''s1''", THEN conjunct1] k g
  have "stmts_of (since ?c (snd (Create scriptedEnv ?c ''ws1'' ''stream'' samplePayload))) =
          purgeStatements scriptedEnv c1 ''s1'' (tableFor ''stream'')"
    by blast
  then have st: "stmts_of (trace (snd (Create scriptedEnv ?c ''ws1'' ''stream'' samplePayload))) =
       [deleteLinksStmt ''s1'', deleteRowStmt ''ConfigurationObject'' ''s1'']"
    using ps c1 tr by (simp add: since_def)
  let ?k = "sampleClient [] (loginOK @ [Response 400 ''bad request'']) [] :: script client"
  let ?kd = "doRequest scriptedEnv ?k ''POST'' ?u (Some samplePayload)"
  have ku: "configURL scriptedEnv ?k ''ws1'' ''stream'' = ?u" by code_simp
  have "fst ?kd = Inr (''bad request'', 400)" by code_simp
  then obtain k1 where kh: "doRequest scriptedEnv ?k ''POST'' (configURL scriptedEnv ?k ''ws1'' ''stream'')
      (Some samplePayload) = (Inr (''bad request'', 400), k1)"
    using ku by (metis prod.collapse)
  have nk: "\<not> isSoftDeleteConflict 400 ''bad request''" by (simp add: isSoftDeleteConflict_def)
  have nn: "non2xx 400" by (simp add: non2xx_def)
  from create_purges_and_retries_once [OF kh, of "''s1''", THEN conjunct2, THEN conjunct2, THEN conjunct1] nk nn
  have "Create scriptedEnv ?k ''ws1'' ''stream'' samplePayload =
          (Inl (Errorf ''POST %s returned %d: %s'' [S (configURL scriptedEnv ?k ''ws1'' ''stream''), D 400,
                  S ''bad request'']), k1)"
    by blast
  then have other: "fst (Create scriptedEnv ?k ''ws1'' ''stream'' samplePayload) =
       Inl (Errorf ''POST %s returned %d: %s'' [S ?u, D 400, S ''bad request''])"
    using ku by simp
  from fd k g v st n nk nn other show ?thesis by (intro conjI)
qed

text \<open>
  The claim as stated has the POST retried after every conflict. Here no
  \<^verbatim>\<open>database_url\<close> is configured: the purge fails, the POST has gone out once, and the
  server's acceptance of a second POST is never asked for.
\<close>

theorem create_no_retry_when_purge_fails:
  "fst (doRequest scriptedEnv (sampleClient [] recreateScript []) ''POST''
          ''https://jitsu.example/api/ws1/config/stream'' (Some samplePayload))
      = Inr (''Unique constraint failed on the fields: (id)'', 500)
   \<and> get_string (Some samplePayload) ''id'' = Some ''s1''
   \<and> fst (Create scriptedEnv (sampleClient [] recreateScript []) ''ws1'' ''stream'' samplePayload) =
       Inl (Errorf ''POST failed (soft-delete conflict) and cleanup failed: %w''
              [W (Errorf ''cannot purge soft-deleted %q: %w''
                    [Q ''s1'', W databaseURLMissing])])
   \<and> sentTo ''POST'' ''https://jitsu.example/api/ws1/config/stream''
        (trace (snd (Create scriptedEnv (sampleClient [] recreateScript []) ''ws1'' ''stream'' samplePayload))) = 1"
  by code_simp

subsection \<open>Listing\<close>





subsection \<open>When authentication fails\<close>

lemma login_outcome:
  assumes "world c1 = w" "sameConfig c c1"
  shows "isl (fst (login env c1 token)) = authFails (exchangeOutcome env c token w)
         \<and> (\<not> authFails (exchangeOutcome env c token w) \<longrightarrow> authenticated (snd (login env c1 token)))"
proof -
  from assms(2) have eq: "loginURL c1 = loginURL c" "loginRequest env c1 token = loginRequest env c token"
    by (simp_all add: sameConfig_def loginURL_def loginRequest_def)
  show ?thesis
    using assms(1)
    by (auto simp: login_def exchangeOutcome_def eq do_http_def
             split: option.splits prod.splits http_result.splits)
qed

text \<open>
  Claim C8, as amended. \<^verbatim>\<open>authenticate\<close> fails exactly when credentials are absent or, the
  session not being marked authenticated yet, the token request cannot be made, sent or
  read, returns a non-2xx status, returns a body that does not decode, returns an empty
  token, or the credential-exchange request cannot be made, sent or read, or is answered
  with a status outside [200,400). Whenever it does not fail the session is marked
  authenticated; in particular every exchange status in [200,400), redirects included,
  is success.
\<close>

theorem authenticate_fails_exactly_when:
  "isl (fst (authenticate env c)) = authFails (authOutcome env c)
   \<and> (\<not> authFails (authOutcome env c) \<longrightarrow> authenticated (snd (authenticate env c)))"
proof (cases "username c = [] \<or> password c = [] \<or> authenticated c")
  case True
  then show ?thesis by (auto simp: authenticate_def authOutcome_def)
next
  case False
  show ?thesis
  proof (cases "newRequestErr env ''GET'' (csrfURL c)")
    case (Some e)
    with False show ?thesis by (simp add: authenticate_def authOutcome_def rawRequest_def)
  next
    case None
    obtain r w where d: "httpDo env (csrfRequest c) (world c) = (r, w)"
      by (cases "httpDo env (csrfRequest c) (world c)") auto
    let ?c1 = "emit (HttpDo (csrfRequest c)) (c\<lparr>world := w\<rparr>)"
    have raw: "rawRequest env c ''GET'' (csrfURL c) None [] =
        (case r of DoError err \<Rightarrow> Inl (Errorf ''executing request: %w'' [W err])
         | ReadError st err \<Rightarrow> Inl (Errorf ''reading response body: %w'' [W err])
         | Response st body \<Rightarrow> Inr (body, st), ?c1)"
      using None d by (simp add: rawRequest_def do_http_def csrfRequest_def split: http_result.splits)
    have k: "world ?c1 = w" "sameConfig c ?c1" by (simp_all add: emit_def sameConfig_def)
    show ?thesis
    proof (cases r)
      case (DoError e)
      with False None d raw show ?thesis by (simp add: authenticate_def authOutcome_def)
    next
      case (ReadError st e)
      with False None d raw show ?thesis by (simp add: authenticate_def authOutcome_def)
    next
      case (Response st body)
      show ?thesis
      proof (cases "\<exists>token. \<not> (st < 200 \<or> st \<ge> 300) \<and> unmarshal_csrf env body = Inr token \<and> token \<noteq> []")
        case True
        then obtain token where t: "\<not> (st < 200 \<or> st \<ge> 300)" "unmarshal_csrf env body = Inr token" "token \<noteq> []"
          by blast
        have a: "authenticate env c = login env ?c1 token"
          using False raw Response t by (simp add: authenticate_def)
        have o: "authOutcome env c = exchangeOutcome env c token w"
          using False None d Response t by (simp add: authOutcome_def)
        from login_outcome [OF k, of env token] a o show ?thesis by simp
      next
        case no: False
        with False None d raw Response show ?thesis
          by (auto simp: authenticate_def authOutcome_def split: sum.splits)
      qed
    qed
  qed
qed

theorem authenticate_fails_exactly_when_witness:
  "authOutcome scriptedEnv (sampleClient [] loginOK []) = ExchangeStatus 302
   \<and> \<not> authFails (ExchangeStatus 302)
   \<and> \<not> isl (fst (authenticate scriptedEnv (sampleClient [] loginOK [])))
   \<and> authenticated (snd (authenticate scriptedEnv (sampleClient [] loginOK [])))
   \<and> authOutcome scriptedEnv (sampleClient [] [Response 200 tokenBody, Response 401 ''denied''] [])
        = ExchangeStatus 401
   \<and> isl (fst (authenticate scriptedEnv (sampleClient [] [Response 200 tokenBody, Response 401 ''denied''] [])))"
proof -
  let ?c = "sampleClient [] loginOK [] :: script client"
  let ?k = "sampleClient [] [Response 200 tokenBody, Response 401 ''denied''] [] :: script client"
  have o: "authOutcome scriptedEnv ?c = ExchangeStatus 302" by code_simp
  have ok: "authOutcome scriptedEnv ?k = ExchangeStatus 401" by code_simp
  have f: "\<not> authFails (ExchangeStatus 302)" "authFails (ExchangeStatus 401)" by simp_all
  from authenticate_fails_exactly_when [of scriptedEnv ?c] o f
  have a: "\<not> isl (fst (authenticate scriptedEnv ?c))" "authenticated (snd (authenticate scriptedEnv ?c))"
    by simp_all
  from authenticate_fails_exactly_when [of scriptedEnv ?k] ok f
  have b: "isl (fst (authenticate scriptedEnv ?k))" by simp
  from o f a ok b show ?thesis by (intro conjI)
qed

text \<open>
  The failures listed in the claim as stated all need an answer from the exchange
  endpoint. Here the credentials are present, the token arrives with status 200 and is
  not empty, and the exchange request gets no answer at all: \<^verbatim>\<open>authenticate\<close> fails, with
  no exchange status to blame.
\<close>

theorem authenticate_fails_when_exchange_is_not_answered:
  "username (sampleClient [] tokenOnlyScript []) \<noteq> [] \<and> password (sampleClient [] tokenOnlyScript []) \<noteq> []
   \<and> \<not> authenticated (sampleClient [] tokenOnlyScript [])
   \<and> fst (rawRequest scriptedEnv (sampleClient [] tokenOnlyScript []) ''GET''
            (csrfURL (sampleClient [] tokenOnlyScript [])) None []) = Inr (tokenBody, 200)
   \<and> unmarshal_csrf scriptedEnv tokenBody = Inr ''tok''
   \<and> authOutcome scriptedEnv (sampleClient [] tokenOnlyScript []) = ExchangeFailed
   \<and> fst (authenticate scriptedEnv (sampleClient [] tokenOnlyScript [])) =
       Inl (Errorf ''executing login request: %w'' [W (External ''connection refused'')])"
  by code_simp

subsection \<open>Creating a workspace\<close>

lemma send_exchange:
  assumes "requestBuilds env m u b" "send env c m u b = (r, c')"
  shows "exchanges_of (since c c') = [apiRequest c m u (marshalled env b)]"
  using assms
  by (auto simp: send_def requestBuilds_def marshalled_def since_def do_http_def emit_def
                 logRequest_def logResponse_def
           split: option.splits sum.splits prod.splits http_result.splits)

lemma apiRequest_config: "sameConfig c c' \<Longrightarrow> apiRequest c' m u b = apiRequest c m u b"
  by (simp add: apiRequest_def sameConfig_def)

lemma doRequest_sends:
  assumes ok: "authenticate env c = (Inr x, c1)"
    and b: "requestBuilds env m u body"
    and d: "doRequest env c m u body = (r, c')"
  shows "apiRequest c m u (marshalled env body) \<in> set (exchanges_of (since c c'))"
proof -
  obtain r2 c2 where s1: "send env c1 m u body = (r2, c2)" by (cases "send env c1 m u body") auto
  let ?c2 = "markUnauthenticated (emit (logAuthRetry m u (snd (projr r2))) c2)"
  obtain r3 c3 where a2: "authenticate env ?c2 = (r3, c3)" by (cases "authenticate env ?c2") auto
  obtain r4 c4 where s2: "send env c3 m u body = (r4, c4)" by (cases "send env c3 m u body") auto
  note t1 = authenticate_trace [OF ok] and f2 = send_frame [OF s1]
    and t3 = authenticate_trace [OF a2] and f4 = send_frame [OF s2]
  have same: "apiRequest c1 m u (marshalled env body) = apiRequest c m u (marshalled env body)"
    using authenticate_config [OF ok] by (rule apiRequest_config)
  have x2: "apiRequest c m u (marshalled env body) \<in> set (exchanges_of (since c c2))"
    using since_trans [where a=c and b=c1 and c=c2] t1 f2 send_exchange [OF b s1] same by simp
  have e2: "\<exists>d. trace c2 = trace c @ d" using t1 f2 by auto
  have e2': "\<exists>d. trace ?c2 = trace c2 @ d" by (simp add: markUnauthenticated_def)
  have e3: "\<exists>d. trace c3 = trace c2 @ d" using e2' t3 by auto
  have e4: "\<exists>d. trace c4 = trace c2 @ d" using e3 f4 by auto
  have x3: "apiRequest c m u (marshalled env body) \<in> set (exchanges_of (since c c3))"
    using since_trans [where a=c and b=c2 and c=c3] e2 e3 x2 by simp
  have x4: "apiRequest c m u (marshalled env body) \<in> set (exchanges_of (since c c4))"
    using since_trans [where a=c and b=c2 and c=c4] e2 e4 x2 by simp
  from d ok s1 a2 s2 have "c' = c2 \<or> c' = c3 \<or> c' = c4"
    by (auto simp: doRequest_def split: sum.splits if_splits prod.splits)
  with x2 x3 x4 show ?thesis by blast
qed

text \<open>
  Claim C6. When the POST of a workspace creation succeeds and the follow-up update that
  re-asserts name and slug fails, the handler sends, through the request executor, a
  DELETE to the workspace endpoint whose body names the new workspace (the exchange is in
  the trace whenever the session still authenticates and the request can be built), and
  adds one error diagnostic: the update error, followed by "Rolled back" when the DELETE
  was answered with a 2xx status or 404, and by "Rollback failed" with the reason (the
  executor's error, or the status error of the DELETE) otherwise. The state of the
  response is left as it was.
\<close>

theorem workspace_create_rolls_back:
  assumes "\<not> HasError (diagnostics resp0 @ planDiags req)"
    and "WorkspaceCreate env c (ValueString (Name (plan req))) (ValueString (Slug (plan req))) = (Inr ident, c1)"
    and "WorkspaceUpdate env c1 ident (ValueString (Name (plan req))) (ValueString (Slug (plan req))) = (Inl err, c2)"
    and "doRequest env c2 ''DELETE'' (workspaceURL c2) (Some [(''workspaceId'', JString ident)]) = (answer, c3)"
  shows "workspaceResource_Create env c req resp0 =
           (\<lparr> diagnostics = diagnostics resp0 @ planDiags req @
                 [DiagError ''Error finalizing workspace creation''
                    (case answer of
                       Inl e \<Rightarrow>
                         Errorf ''%s. Rollback failed for workspace %q: %s'' [W err, Q ident, W e]
                     | Inr (body, status) \<Rightarrow>
                         if status = 404 \<or> (200 \<le> status \<and> status < 300)
                         then Errorf ''%s. Rolled back newly-created workspace %q.'' [W err, Q ident]
                         else Errorf ''%s. Rollback failed for workspace %q: %s''
                                [W err, Q ident,
                                 W (Errorf ''DELETE %s returned %d: %s'' [S (workspaceURL c2), D status, S body])])],
               state = state resp0 \<rparr>, c3)
         \<and> (\<not> isl (fst (authenticate env c2))
              \<and> requestBuilds env ''DELETE'' (workspaceURL c2) (Some [(''workspaceId'', JString ident)]) \<longrightarrow>
            apiRequest c2 ''DELETE'' (workspaceURL c2) (marshalled env (Some [(''workspaceId'', JString ident)]))
              \<in> set (exchanges_of (since c2 c3)))"
proof -
  let ?p = "Some [(''workspaceId'', JString ident)]"
  have sent: "apiRequest c2 ''DELETE'' (workspaceURL c2) (marshalled env ?p) \<in> set (exchanges_of (since c2 c3))"
    if a: "\<not> isl (fst (authenticate env c2))" and b: "requestBuilds env ''DELETE'' (workspaceURL c2) ?p"
  proof -
    from a obtain x k where "authenticate env c2 = (Inr x, k)"
      by (cases "authenticate env c2"; cases "fst (authenticate env c2)") auto
    from doRequest_sends [OF this b assms(4)] show ?thesis .
  qed
  have del: "WorkspaceDelete env c2 ident =
      (case answer of Inl e \<Rightarrow> Inl e
       | Inr (body, status) \<Rightarrow>
           if status = 404 \<or> (200 \<le> status \<and> status < 300) then Inr ()
           else Inl (Errorf ''DELETE %s returned %d: %s'' [S (workspaceURL c2), D status, S body]), c3)"
    using assms(4)
    by (auto simp: WorkspaceDelete_def Let_def non2xx_def statusError_def split: sum.splits)
  have main: "workspaceResource_Create env c req resp0 =
           (\<lparr> diagnostics = diagnostics resp0 @ planDiags req @
                 [DiagError ''Error finalizing workspace creation''
                    (case answer of
                       Inl e \<Rightarrow>
                         Errorf ''%s. Rollback failed for workspace %q: %s'' [W err, Q ident, W e]
                     | Inr (body, status) \<Rightarrow>
                         if status = 404 \<or> (200 \<le> status \<and> status < 300)
                         then Errorf ''%s. Rolled back newly-created workspace %q.'' [W err, Q ident]
                         else Errorf ''%s. Rollback failed for workspace %q: %s''
                                [W err, Q ident,
                                 W (Errorf ''DELETE %s returned %d: %s'' [S (workspaceURL c2), D status, S body])])],
               state = state resp0 \<rparr>, c3)"
    using assms(1-3) del
    by (auto simp: workspaceResource_Create_def Let_def AddError_def split: sum.splits)
  from main sent show ?thesis by blast
qed

theorem workspace_create_rolls_back_witness:
  "fst (WorkspaceCreate scriptedEnv (sampleClient [] rollbackScript []) ''Main'' ''main'') = Inr ''ws1''
   \<and> fst (WorkspaceUpdate scriptedEnv
            (snd (WorkspaceCreate scriptedEnv (sampleClient [] rollbackScript []) ''Main'' ''main''))
            ''ws1'' ''Main'' ''main'') =
       Inl (Errorf ''PUT %s returned %d: %s'' [S ''https://jitsu.example/api/workspace/ws1'', D 500, S ''boom''])
   \<and> fst (workspaceResource_Create scriptedEnv (sampleClient [] rollbackScript []) samplePlan emptyResponse) =
       \<lparr> diagnostics =
           [DiagError ''Error finalizing workspace creation''
              (Errorf ''%s. Rolled back newly-created workspace %q.''
                 [W (Errorf ''PUT %s returned %d: %s''
                       [S ''https://jitsu.example/api/workspace/ws1'', D 500, S ''boom'']),
                  Q ''ws1''])],
         state = None \<rparr>
   \<and> deleteWorkspaceRequest \<in> set (exchanges_of (since
         (snd (WorkspaceUpdate scriptedEnv
            (snd (WorkspaceCreate scriptedEnv (sampleClient [] rollbackScript []) ''Main'' ''main''))
            ''ws1'' ''Main'' ''main''))
         (snd (workspaceResource_Create scriptedEnv (sampleClient [] rollbackScript []) samplePlan emptyResponse))))
   \<and> fst (workspaceResource_Create scriptedEnv (sampleClient [] rollbackFailsScript []) samplePlan emptyResponse) =
       \<lparr> diagnostics =
           [DiagError ''Error finalizing workspace creation''
              (Errorf ''%s. Rollback failed for workspace %q: %s''
                 [W (Errorf ''PUT %s returned %d: %s''
                       [S ''https://jitsu.example/api/workspace/ws1'', D 500, S ''boom'']),
                  Q ''ws1'',
                  W (Errorf ''DELETE %s returned %d: %s''
                       [S ''https://jitsu.example/api/workspace'', D 500, S ''stuck''])])],
         state = None \<rparr>"
proof -
  let ?e = "Errorf ''PUT %s returned %d: %s'' [S ''https://jitsu.example/api/workspace/ws1'', D 500, S ''boom'']"
  let ?n = "ValueString (Name (plan samplePlan))"
  let ?s = "ValueString (Slug (plan samplePlan))"
  have ns: "?n = ''Main''" "?s = ''main''" by code_simp+
  have h0: "\<not> HasError (diagnostics emptyResponse @ planDiags samplePlan)" by code_simp
  have st0: "diagnostics emptyResponse @ planDiags samplePlan = []" "state emptyResponse = None"
    by (simp_all add: emptyResponse_def samplePlan_def)
  let ?c = "sampleClient [] rollbackScript [] :: script client"
  let ?w = "WorkspaceCreate scriptedEnv ?c ''Main'' ''main''"
  let ?u = "WorkspaceUpdate scriptedEnv (snd ?w) ''ws1'' ''Main'' ''main''"
  let ?p = "Some [(''workspaceId'', JString ''ws1'')]"
  let ?d = "doRequest scriptedEnv (snd ?u) ''DELETE'' (workspaceURL (snd ?u)) ?p"
  have f1: "fst ?w = Inr ''ws1''" by code_simp
  have f2: "fst ?u = Inl ?e" by code_simp
  have f3: "fst ?d = Inr (''{}'', 200)" by code_simp
  have au: "\<not> isl (fst (authenticate scriptedEnv (snd ?u)))" by code_simp
  have rb: "requestBuilds scriptedEnv ''DELETE'' (workspaceURL (snd ?u)) ?p" by code_simp
  have rq: "apiRequest (snd ?u) ''DELETE'' (workspaceURL (snd ?u)) (marshalled scriptedEnv ?p)
              = deleteWorkspaceRequest" by code_simp
  obtain c1 where h1: "WorkspaceCreate scriptedEnv ?c ?n ?s = (Inr ''ws1'', c1)"
    using f1 ns by (metis prod.collapse)
  then have c1: "snd ?w = c1" using ns by simp
  obtain c2 where h2: "WorkspaceUpdate scriptedEnv c1 ''ws1'' ?n ?s = (Inl ?e, c2)"
    using f2 c1 ns by (metis prod.collapse)
  then have c2: "snd ?u = c2" using c1 ns by simp
  obtain c3 where h3: "doRequest scriptedEnv c2 ''DELETE'' (workspaceURL c2) ?p = (Inr (''{}'', 200), c3)"
    using f3 c2 by (metis prod.collapse)
  note t = workspace_create_rolls_back [OF h0 h1 h2 h3]
  from t have r: "workspaceResource_Create scriptedEnv ?c samplePlan emptyResponse =
      (\<lparr> diagnostics = [DiagError ''Error finalizing workspace creation''
              (Errorf ''%s. Rolled back newly-created workspace %q.'' [W ?e, Q ''ws1''])],
         state = None \<rparr>, c3)"
    using st0 by simp
  from t au rb c2 have "apiRequest c2 ''DELETE'' (workspaceURL c2) (marshalled scriptedEnv ?p)
      \<in> set (exchanges_of (since c2 c3))"
    by blast
  with rq c2 r have m: "deleteWorkspaceRequest \<in> set (exchanges_of (since (snd ?u)
      (snd (workspaceResource_Create scriptedEnv ?c samplePlan emptyResponse))))"
    by simp
  let ?k = "sampleClient [] rollbackFailsScript [] :: script client"
  let ?kw = "WorkspaceCreate scriptedEnv ?k ''Main'' ''main''"
  let ?ku = "WorkspaceUpdate scriptedEnv (snd ?kw) ''ws1'' ''Main'' ''main''"
  let ?kd = "doRequest scriptedEnv (snd ?ku) ''DELETE'' (workspaceURL (snd ?ku)) ?p"
  have g1: "fst ?kw = Inr ''ws1''" by code_simp
  have g2: "fst ?ku = Inl ?e" by code_simp
  have g3: "fst ?kd = Inr (''stuck'', 500)" by code_simp
  have ku: "workspaceURL (snd ?ku) = ''https://jitsu.example/api/workspace''" by code_simp
  obtain k1 where j1: "WorkspaceCreate scriptedEnv ?k ?n ?s = (Inr ''ws1'', k1)"
    using g1 ns by (metis prod.collapse)
  then have k1: "snd ?kw = k1" using ns by simp
  obtain k2 where j2: "WorkspaceUpdate scriptedEnv k1 ''ws1'' ?n ?s = (Inl ?e, k2)"
    using g2 k1 ns by (metis prod.collapse)
  then have k2: "snd ?ku = k2" using k1 ns by simp
  obtain k3 where j3: "doRequest scriptedEnv k2 ''DELETE'' (workspaceURL k2) ?p = (Inr (''stuck'', 500), k3)"
    using g3 k2 by (metis prod.collapse)
  from workspace_create_rolls_back [OF h0 j1 j2 j3, THEN conjunct1]
  have r': "fst (workspaceResource_Create scriptedEnv ?k samplePlan emptyResponse) =
      \<lparr> diagnostics = [DiagError ''Error finalizing workspace creation''
              (Errorf ''%s. Rollback failed for workspace %q: %s''
                 [W ?e, Q ''ws1'',
                  W (Errorf ''DELETE %s returned %d: %s''
                       [S ''https://jitsu.example/api/workspace'', D 500, S ''stuck''])])],
         state = None \<rparr>"
    using st0 ku k2 by simp
  from r have r0: "fst (workspaceResource_Create scriptedEnv ?c samplePlan emptyResponse) =
      \<lparr> diagnostics = [DiagError ''Error finalizing workspace creation''
              (Errorf ''%s. Rolled back newly-created workspace %q.'' [W ?e, Q ''ws1''])],
         state = None \<rparr>"
    by simp
  from f1 f2 r0 m r' show ?thesis by (intro conjI)
qed

end
